theory Spec2Isabelle
  imports Complex_Main "HOL-Library.Word" "HOL-Library.Signed_Division"
begin

unbundle bit_operations_syntax

section \<open>Metrics registry (metrics.go)\<close>

text \<open>
  The registry is a struct guarded by one mutex; every method takes the lock for its whole
  body, so each method is one atomic transition of the record below. Go's \<open>int\<close> counters
  are only ever moved by one from zero and are modelled as \<open>int\<close>. The field
  \<open>totalResponseTime\<close> is an \<open>int64\<close> to which arbitrary \<open>int64\<close> values are
  added, so its two's complement wrap-around is written out (\<open>int64\<close> below). A
  \<open>float64\<close> is modelled by the real number it denotes, and every floating-point
  operation (conversion from an integer, division, multiplication) rounds its exact result
  with the rounding function \<open>rnd\<close>, which the getters take as a parameter. Timestamps are
  passed in as the already formatted string.
\<close>

record ErrorRecord =
  Timestamp :: string
  ErrorType :: string
  Message :: string

record Metrics =
  startTime :: string
  requestCount :: int
  successCount :: int
  errorCount :: int
  activeConnections :: int
  currentCalls :: int
  totalResponseTime :: int
  errors :: "ErrorRecord list"

definition int64 :: "int \<Rightarrow> int" where
  "int64 x = signed_take_bit 63 x"

definition initMetrics :: "string \<Rightarrow> Metrics" where
  "initMetrics now =
     \<lparr>startTime = now, requestCount = 0, successCount = 0, errorCount = 0,
      activeConnections = 0, currentCalls = 0, totalResponseTime = 0, errors = []\<rparr>"

definition RecordRequest :: "bool \<Rightarrow> int \<Rightarrow> Metrics \<Rightarrow> Metrics" where
  "RecordRequest success responseTimeMs m =
     (let m1 = m\<lparr>requestCount := requestCount m + 1\<rparr>;
          m2 = m1\<lparr>totalResponseTime := int64 (totalResponseTime m1 + responseTimeMs)\<rparr>
      in if success then m2\<lparr>successCount := successCount m2 + 1\<rparr>
         else m2\<lparr>errorCount := errorCount m2 + 1\<rparr>)"

definition RecordError :: "string \<Rightarrow> string \<Rightarrow> string \<Rightarrow> Metrics \<Rightarrow> Metrics" where
  "RecordError now errorType message m =
     (let record = \<lparr>Timestamp = now, ErrorType = errorType, Message = message\<rparr>;
          m1 = m\<lparr>errors := errors m @ [record]\<rparr>
      in if length (errors m1) > 100
         then m1\<lparr>errors := drop (length (errors m1) - 100) (errors m1)\<rparr>
         else m1)"

definition IncActiveConnections :: "Metrics \<Rightarrow> Metrics" where
  "IncActiveConnections m = m\<lparr>activeConnections := activeConnections m + 1\<rparr>"

definition DecActiveConnections :: "Metrics \<Rightarrow> Metrics" where
  "DecActiveConnections m =
     (if activeConnections m > 0 then m\<lparr>activeConnections := activeConnections m - 1\<rparr> else m)"

definition IncCurrentCalls :: "Metrics \<Rightarrow> Metrics" where
  "IncCurrentCalls m = m\<lparr>currentCalls := currentCalls m + 1\<rparr>"

definition DecCurrentCalls :: "Metrics \<Rightarrow> Metrics" where
  "DecCurrentCalls m =
     (if currentCalls m > 0 then m\<lparr>currentCalls := currentCalls m - 1\<rparr> else m)"

definition GetSuccessRate :: "(real \<Rightarrow> real) \<Rightarrow> Metrics \<Rightarrow> real" where
  "GetSuccessRate rnd m =
     (if requestCount m = 0 then 100
      else rnd (rnd (rnd (of_int (successCount m)) / rnd (of_int (requestCount m))) * 100))"

definition GetAvgResponseTime :: "Metrics \<Rightarrow> int" where
  "GetAvgResponseTime m =
     (if requestCount m = 0 then 0
      else int64 (totalResponseTime m sdiv int64 (requestCount m)))"

definition GetErrorCount :: "Metrics \<Rightarrow> int" where
  "GetErrorCount m = errorCount m"


definition GetCurrentCalls :: "Metrics \<Rightarrow> int" where
  "GetCurrentCalls m = currentCalls m"

definition GetRequestCount :: "Metrics \<Rightarrow> int" where
  "GetRequestCount m = requestCount m"

definition GetErrorRecords :: "Metrics \<Rightarrow> ErrorRecord list" where
  "GetErrorRecords m = errors m"

text \<open>
  A history of the registry is the list of method calls made on it, in lock order.
\<close>

datatype metrics_call =
    CallRecordRequest bool int
  | CallRecordError string string string
  | CallIncActiveConnections
  | CallDecActiveConnections
  | CallIncCurrentCalls
  | CallDecCurrentCalls

fun call_step :: "Metrics \<Rightarrow> metrics_call \<Rightarrow> Metrics" where
  "call_step m (CallRecordRequest success ms) = RecordRequest success ms m"
| "call_step m (CallRecordError now ty msg) = RecordError now ty msg m"
| "call_step m CallIncActiveConnections = IncActiveConnections m"
| "call_step m CallDecActiveConnections = DecActiveConnections m"
| "call_step m CallIncCurrentCalls = IncCurrentCalls m"
| "call_step m CallDecCurrentCalls = DecCurrentCalls m"

definition run_calls :: "Metrics \<Rightarrow> metrics_call list \<Rightarrow> Metrics" where
  "run_calls m cs = foldl call_step m cs"

fun error_records_of :: "metrics_call list \<Rightarrow> ErrorRecord list" where
  "error_records_of [] = []"
| "error_records_of (CallRecordError now ty msg # cs) =
     \<lparr>Timestamp = now, ErrorType = ty, Message = msg\<rparr> # error_records_of cs"
| "error_records_of (_ # cs) = error_records_of cs"


section \<open>Configuration and errors (tts websocket server.go)\<close>

type_synonym byte = "8 word"

record Config =
  ServerHost :: string
  ServerPort :: string
  ByteDanceAppID :: string
  ByteDanceToken :: string
  ByteDanceCluster :: string
  ByteDanceVoiceType :: string
  OpenAITTSAPIKey :: string
  DialTimeout :: int
  ReadTimeout :: int
  WriteTimeout :: int
  LogLevel :: string
  MaxConnections :: int
  MaxRequestSizeMB :: int
  MaxTextLength :: int
  MaxConcurrentCalls :: int

text \<open>
  The library (gorilla/websocket) reports a failed dial, write or read either as a
  \<open>*CloseError\<close> carrying the close code and text, or as some other error.
\<close>

datatype ws_error = CloseError int string | NetError string

definition CloseGoingAway :: int where
  "CloseGoingAway = 1001"

definition CloseAbnormalClosure :: int where
  "CloseAbnormalClosure = 1006"

text \<open>
  \<open>websocket.IsUnexpectedCloseError(err, expectedCodes...)\<close> of the library: true when
  the error is a \<open>*CloseError\<close> whose code is not one of the expected codes.
\<close>

definition IsUnexpectedCloseError :: "ws_error \<Rightarrow> int list \<Rightarrow> bool" where
  "IsUnexpectedCloseError err expectedCodes =
     (case err of
        CloseError code _ \<Rightarrow> code \<notin> set expectedCodes
      | NetError _ \<Rightarrow> False)"

text \<open>The errors \<open>parseByteDanceResponse\<close> returns, one constructor per message.\<close>

datatype parse_error =
    ResponseTooShort
  | HeaderSizeExceedsData
  | AudioInsufficientData
  | ServerError "32 word" "byte list"
  | ErrorInsufficientData
  | FrontendInsufficientData
  | UnknownMessageType byte

text \<open>
  The errors \<open>streamSynthesize\<close> returns: each wraps one of the sentinel errors of the
  file (\<open>%w\<close>), with the detail that the message formats.
\<close>

datatype error =
    ErrTextTooLong nat int
  | ErrTooManyConnections int
  | ErrWebSocketDialFailed ws_error
  | ErrMessageWriteFailed ws_error
  | ErrMessageReadFailed ws_error
  | ErrResponseParseFailed parse_error
  | ErrMarshalFailed

section \<open>Frame codec\<close>

definition optSubmit :: string where
  "optSubmit = ''submit''"

definition defaultHeader :: "byte list" where
  "defaultHeader = [0x11, 0x10, 0x11, 0x00]"

record SynthResp =
  Audio :: "byte list"
  IsLast :: bool

text \<open>\<open>binary.BigEndian.Uint32\<close> and \<open>binary.BigEndian.PutUint32\<close> on a 4-byte slice.\<close>

definition BigEndian_Uint32 :: "byte list \<Rightarrow> 32 word" where
  "BigEndian_Uint32 b =
     ucast (b ! 3) OR push_bit 8 (ucast (b ! 2)) OR push_bit 16 (ucast (b ! 1))
       OR push_bit 24 (ucast (b ! 0))"

definition BigEndian_PutUint32 :: "32 word \<Rightarrow> byte list" where
  "BigEndian_PutUint32 v =
     [ucast (drop_bit 24 v), ucast (drop_bit 16 v), ucast (drop_bit 8 v), ucast v]"

text \<open>
  The request parameters are a \<open>map[string]map[string]interface{}\<close> whose values are
  strings and \<open>float64\<close> numbers.
\<close>

datatype json_value = JString string | JNumber real

type_synonym tts_params = "string \<rightharpoonup> (string \<rightharpoonup> json_value)"

text \<open>
  \<open>setupByteDanceInput\<close>. \<open>json.Marshal\<close> and the fresh request id (\<open>uuid.NewV4\<close>)
  are taken as parameters; \<open>len(text)\<close> counts the bytes of the string.
\<close>

definition setupByteDanceInput ::
  "(tts_params \<Rightarrow> byte list option) \<Rightarrow> string \<Rightarrow> Config \<Rightarrow> string \<Rightarrow> string \<Rightarrow> real
     \<Rightarrow> error + byte list" where
  "setupByteDanceInput json_Marshal reqID appConfig txt opt speed =
     (if int (length txt) > MaxTextLength appConfig
      then Inl (ErrTextTooLong (length txt) (MaxTextLength appConfig))
      else
        let appID = ByteDanceAppID appConfig;
            token = ByteDanceToken appConfig;
            cluster = ByteDanceCluster appConfig;
            voiceType = ByteDanceVoiceType appConfig;
            params = [
              ''app'' \<mapsto> [''appid'' \<mapsto> JString appID, ''token'' \<mapsto> JString token,
                          ''cluster'' \<mapsto> JString cluster],
              ''user'' \<mapsto> [''uid'' \<mapsto> JString ''uid''],
              ''audio'' \<mapsto> [''voice_type'' \<mapsto> JString voiceType,
                            ''encoding'' \<mapsto> JString ''mp3'',
                            ''speed_ratio'' \<mapsto> JNumber speed,
                            ''volume_ratio'' \<mapsto> JNumber 1.0,
                            ''pitch_ratio'' \<mapsto> JNumber 1.0],
              ''request'' \<mapsto> [''reqid'' \<mapsto> JString reqID, ''text'' \<mapsto> JString txt,
                              ''text_type'' \<mapsto> JString ''plain'',
                              ''operation'' \<mapsto> JString opt]]
        in case json_Marshal params of
             None \<Rightarrow> Inl ErrMarshalFailed
           | Some resStr \<Rightarrow> Inr resStr)"

text \<open>
  \<open>gzipDecompress\<close>: the gzip reader of the standard library is the parameter
  \<open>gunzip\<close> (\<open>None\<close> when the reader or the read fails); on failure the input comes
  back unchanged.
\<close>

definition gzipDecompress :: "(byte list \<Rightarrow> byte list option) \<Rightarrow> byte list \<Rightarrow> byte list" where
  "gzipDecompress gunzip input = (case gunzip input of None \<Rightarrow> input | Some out \<Rightarrow> out)"

text \<open>
  The \<open>switch messageType\<close> of \<open>parseByteDanceResponse\<close>, on the fields of the header
  and the payload.
\<close>

definition dispatchMessage ::
  "(byte list \<Rightarrow> byte list option) \<Rightarrow> byte \<Rightarrow> byte \<Rightarrow> byte \<Rightarrow> byte list
     \<Rightarrow> parse_error + SynthResp" where
  "dispatchMessage gunzip messageType messageTypeSpecificFlags messageCompression payload =
     (if messageType = 0xb then
        (if messageTypeSpecificFlags = 0 then Inr \<lparr>Audio = [], IsLast = False\<rparr>
         else if length payload < 8 then Inl AudioInsufficientData
         else
           let sequenceNumber = BigEndian_Uint32 (take 4 payload);
               audioData = drop 8 payload
           in Inr \<lparr>Audio = audioData, IsLast = (sint sequenceNumber < 0)\<rparr>)
      else if messageType = 0xf then
        (if length payload < 8 then Inl ErrorInsufficientData
         else
           let code = BigEndian_Uint32 (take 4 payload);
               errorData = drop 8 payload;
               errorMsg = (if messageCompression = 1 then gzipDecompress gunzip errorData
                           else errorData)
           in Inl (ServerError code errorMsg))
      else if messageType = 0xc then
        (if length payload < 4 then Inl FrontendInsufficientData
         else Inr \<lparr>Audio = [], IsLast = False\<rparr>)
      else Inl (UnknownMessageType messageType))"

definition parseByteDanceResponse ::
  "(byte list \<Rightarrow> byte list option) \<Rightarrow> byte list \<Rightarrow> parse_error + SynthResp" where
  "parseByteDanceResponse gunzip res =
     (if length res < 4 then Inl ResponseTooShort
      else
        let headSize = (res ! 0) AND 0x0f;
            messageType = drop_bit 4 (res ! 1);
            messageTypeSpecificFlags = (res ! 1) AND 0x0f;
            messageCompression = (res ! 2) AND 0x0f
        in if unat (headSize * 4) > length res then Inl HeaderSizeExceedsData
           else
             let payload = drop (unat (headSize * 4)) res
             in dispatchMessage gunzip messageType messageTypeSpecificFlags
                  messageCompression payload)"


section \<open>Admission gate\<close>

text \<open>
  The gate is a buffered channel of empty structs: \<open>chan_cap\<close> is its capacity and
  \<open>chan_len\<close> the number of elements it holds, one per admitted call. \<open>make\<close>
  panics on a negative size. The \<open>select\<close> with a \<open>default\<close> branch sends without
  blocking: it succeeds exactly when the buffer has room. A receive takes one element and
  blocks while the buffer is empty (\<open>None\<close>), there being no blocked sender.
\<close>

record chan =
  chan_cap :: nat
  chan_len :: nat

definition make_chan :: "int \<Rightarrow> chan option" where
  "make_chan n = (if n < 0 then None else Some \<lparr>chan_cap = nat n, chan_len = 0\<rparr>)"

definition try_send :: "chan \<Rightarrow> chan option" where
  "try_send c = (if chan_len c < chan_cap c then Some (c\<lparr>chan_len := chan_len c + 1\<rparr>) else None)"

definition recv :: "chan \<Rightarrow> chan option" where
  "recv c = (if chan_len c > 0 then Some (c\<lparr>chan_len := chan_len c - 1\<rparr>) else None)"

section \<open>Upstream relay\<close>

text \<open>
  The process state a call touches: the gate, the metrics registry, and the log of the
  network operations performed so far. The upstream's behaviour during one call is given
  by \<open>upstream\<close>: whether the dial and the write fail, and what each successive
  \<open>ReadMessage\<close> returns. The library functions the call uses are passed alongside.
\<close>

datatype net_event = EvDial | EvWrite "byte list" | EvRead | EvClose

record world =
  semaphore :: chan
  GlobalMetrics :: Metrics
  net_log :: "net_event list"

datatype read_result = ReadOk "byte list" | ReadFails ws_error

record upstream =
  json_Marshal :: "tts_params \<Rightarrow> byte list option"
  new_uuid :: string
  gzipCompress :: "byte list \<Rightarrow> byte list"
  gunzip :: "byte list \<Rightarrow> byte list option"
  dial_error :: "ws_error option"
  write_error :: "ws_error option"
  incoming :: "read_result list"

text \<open>\<open>init\<close>: the gate is sized to \<open>MaxConcurrentCalls\<close>.\<close>

definition init :: "Config \<Rightarrow> Metrics \<Rightarrow> world option" where
  "init appConfig m =
     (case make_chan (MaxConcurrentCalls appConfig) of
        None \<Rightarrow> None
      | Some c \<Rightarrow> Some \<lparr>semaphore = c, GlobalMetrics = m, net_log = []\<rparr>)"

text \<open>
  The receive loop of \<open>streamSynthesize\<close>. It consumes the reads the upstream delivers;
  when they run out the loop is still blocked in \<open>ReadMessage\<close> and the result is
  \<open>None\<close>.
\<close>

fun receiveLoop ::
  "(byte list \<Rightarrow> byte list option) \<Rightarrow> read_result list \<Rightarrow> byte list \<Rightarrow> net_event list
     \<Rightarrow> (error + byte list) option \<times> net_event list" where
  "receiveLoop gz [] audio lg = (None, lg @ [EvRead])"
| "receiveLoop gz (ReadFails err # rest) audio lg =
     (if length audio > 0
         \<and> IsUnexpectedCloseError err [CloseGoingAway, CloseAbnormalClosure]
      then (Some (Inr audio), lg @ [EvRead])
      else (Some (Inl (ErrMessageReadFailed err)), lg @ [EvRead]))"
| "receiveLoop gz (ReadOk message # rest) audio lg =
     (case parseByteDanceResponse gz message of
        Inl perr \<Rightarrow> (Some (Inl (ErrResponseParseFailed perr)), lg @ [EvRead])
      | Inr resp \<Rightarrow>
          if IsLast resp then (Some (Inr (audio @ Audio resp)), lg @ [EvRead])
          else receiveLoop gz rest (audio @ Audio resp) (lg @ [EvRead]))"

text \<open>The construction of the request frame from the compressed body.\<close>

definition clientRequest_of :: "byte list \<Rightarrow> byte list" where
  "clientRequest_of input =
     (let payloadSize = length input;
          payloadArr = BigEndian_PutUint32 (word_of_nat payloadSize)
      in defaultHeader @ payloadArr @ input)"

text \<open>
  The body of \<open>streamSynthesize\<close> after the gate has admitted the call. The deferred
  \<open>c.Close()\<close> runs on every return after a successful dial.
\<close>

definition streamSynthesize_admitted ::
  "upstream \<Rightarrow> Config \<Rightarrow> string \<Rightarrow> real \<Rightarrow> world \<Rightarrow> (error + byte list) option \<times> world" where
  "streamSynthesize_admitted up appConfig txt speed w =
     (case setupByteDanceInput (json_Marshal up) (new_uuid up) appConfig txt optSubmit speed of
        Inl err \<Rightarrow> (Some (Inl err), w)
      | Inr input0 \<Rightarrow>
          (let input = gzipCompress up input0;
               clientRequest = clientRequest_of input;
               w1 = w\<lparr>net_log := net_log w @ [EvDial]\<rparr>
           in (case dial_error up of
                 Some err \<Rightarrow> (Some (Inl (ErrWebSocketDialFailed err)), w1)
               | None \<Rightarrow>
                   (let w2 = w1\<lparr>net_log := net_log w1 @ [EvWrite clientRequest]\<rparr>
                    in (case write_error up of
                          Some err \<Rightarrow>
                            (Some (Inl (ErrMessageWriteFailed err)),
                             w2\<lparr>net_log := net_log w2 @ [EvClose]\<rparr>)
                        | None \<Rightarrow>
                            (case receiveLoop (gunzip up) (incoming up) [] (net_log w2) of
                               (None, lg) \<Rightarrow> (None, w2\<lparr>net_log := lg\<rparr>)
                             | (Some r, lg) \<Rightarrow>
                                 (Some r, w2\<lparr>net_log := lg @ [EvClose]\<rparr>)))))))"

text \<open>
  \<open>streamSynthesize\<close>: the non-blocking acquire, the body, and the deferred release
  (receive from the gate, then \<open>DecCurrentCalls\<close>) once the body has returned. The
  \<open>voiceType\<close> argument is ignored. The result is \<open>None\<close> while the call has not
  returned.
\<close>

definition streamSynthesize ::
  "upstream \<Rightarrow> Config \<Rightarrow> string \<Rightarrow> string \<Rightarrow> real \<Rightarrow> world
     \<Rightarrow> (error + byte list) option \<times> world" where
  "streamSynthesize up appConfig txt voiceType speed w =
     (case try_send (semaphore w) of
        Some c \<Rightarrow>
          let w1 = w\<lparr>semaphore := c, GlobalMetrics := IncCurrentCalls (GlobalMetrics w)\<rparr>
          in (case streamSynthesize_admitted up appConfig txt speed w1 of
                (None, w2) \<Rightarrow> (None, w2)
              | (Some r, w2) \<Rightarrow>
                  (case recv (semaphore w2) of
                     None \<Rightarrow> (None, w2)
                   | Some c' \<Rightarrow>
                       (Some r, w2\<lparr>semaphore := c',
                                   GlobalMetrics := DecCurrentCalls (GlobalMetrics w2)\<rparr>)))
      | None \<Rightarrow> (Some (Inl (ErrTooManyConnections (MaxConcurrentCalls appConfig))), w))"


text \<open>
  Two observers used to state properties: the frames a log says were written to the
  upstream, and the gate after \<open>n\<close> successive non-blocking acquires (\<open>None\<close> as soon
  as one of them fails).
\<close>

fun frames_written :: "net_event list \<Rightarrow> byte list list" where
  "frames_written [] = []"
| "frames_written (EvWrite b # es) = b # frames_written es"
| "frames_written (_ # es) = frames_written es"

fun acquire_n :: "nat \<Rightarrow> chan \<Rightarrow> chan option" where
  "acquire_n 0 c = Some c"
| "acquire_n (Suc n) c = (case try_send c of None \<Rightarrow> None | Some c' \<Rightarrow> acquire_n n c')"

section \<open>Request handler\<close>















section \<open>Concrete inputs\<close>

text \<open>
  The configuration \<open>LoadConfig\<close> yields when only the four required credentials are set,
  the state right after start-up, and an upstream whose replies are given as a parameter.
  In this upstream the two library functions are stand-ins: \<open>json.Marshal\<close> yields the
  two bytes of \<open>{}\<close> and the compressor prefixes the gzip magic number.
\<close>

definition demo_config :: Config where
  "demo_config =
     \<lparr>ServerHost = ''0.0.0.0'', ServerPort = ''8080'', ByteDanceAppID = ''app'',
      ByteDanceToken = ''token'', ByteDanceCluster = ''cluster'', ByteDanceVoiceType = ''voice'',
      OpenAITTSAPIKey = [], DialTimeout = 10000000000, ReadTimeout = 30000000000,
      WriteTimeout = 30000000000, LogLevel = ''info'', MaxConnections = 100,
      MaxRequestSizeMB = 5, MaxTextLength = 5000, MaxConcurrentCalls = 10\<rparr>"

definition demo_world :: world where
  "demo_world =
     \<lparr>semaphore = \<lparr>chan_cap = 10, chan_len = 0\<rparr>,
      GlobalMetrics = initMetrics ''2026-01-01T00:00:00Z'', net_log = []\<rparr>"

definition demo_upstream :: "read_result list \<Rightarrow> upstream" where
  "demo_upstream rs =
     \<lparr>json_Marshal = (\<lambda>params. Some [0x7b, 0x7d]), new_uuid = ''reqid'',
      gzipCompress = (\<lambda>input. [0x1f, 0x8b] @ input), gunzip = (\<lambda>input. None),
      dial_error = None, write_error = None, incoming = rs\<rparr>"

text \<open>
  A second stand-in for \<open>json.Marshal\<close>, whose output depends on the parameters: the
  bytes of the text, then one byte telling whether the speed ratio is 1.
\<close>

definition demo_marshal :: "tts_params \<Rightarrow> byte list option" where
  "demo_marshal params =
     (case params ''request'' of
        None \<Rightarrow> None
      | Some request \<Rightarrow>
          (case request ''text'' of
             Some (JString t) \<Rightarrow>
               (case params ''audio'' of
                  None \<Rightarrow> None
                | Some audio \<Rightarrow>
                    (case audio ''speed_ratio'' of
                       Some (JNumber ratio) \<Rightarrow>
                         Some (map (\<lambda>ch. of_nat (of_char ch)) t
                               @ [if ratio = 1 then 0x31 else 0x3f])
                     | _ \<Rightarrow> None))
           | _ \<Rightarrow> None))"



section \<open>Properties of the metrics registry\<close>

lemma int64_id: "- (2 ^ 63) \<le> x \<Longrightarrow> x < 2 ^ 63 \<Longrightarrow> int64 x = x"
  by (simp add: int64_def signed_take_bit_int_eq_self)

lemma sdiv_pos_eq: "0 \<le> a \<Longrightarrow> 0 < b \<Longrightarrow> (a::int) sdiv b = a div b"
  by (cases "a = 0") (simp_all add: signed_divide_int_def)

lemma sdiv_neg_eq: "a < 0 \<Longrightarrow> 0 < b \<Longrightarrow> (a::int) sdiv b = - ((- a) div b)"
  by (simp add: signed_divide_int_def)

lemma div_le_self_nonneg: "0 \<le> (a::int) \<Longrightarrow> a div b \<le> a"
  by (cases "a = 0") (simp_all add: int_div_le_self)

lemma sdiv_bounds:
  assumes "0 < (b::int)" "lo \<le> a" "a < hi" "lo \<le> 0" "0 < hi"
  shows "lo \<le> a sdiv b \<and> a sdiv b < hi"
proof (cases "0 \<le> a")
  case True
  then have "a div b \<le> a" by (rule div_le_self_nonneg)
  moreover have "0 \<le> a div b" using True assms(1) by (simp add: pos_imp_zdiv_nonneg_iff)
  ultimately show ?thesis using True assms by (simp add: sdiv_pos_eq)
next
  case False
  then have n: "0 \<le> - a" by simp
  then have "(- a) div b \<le> - a" by (rule div_le_self_nonneg)
  moreover have "0 \<le> (- a) div b" using n assms(1) by (simp add: pos_imp_zdiv_nonneg_iff)
  ultimately show ?thesis using False assms by (simp add: sdiv_neg_eq)
qed

lemma GetAvgResponseTime_exact:
  assumes "0 < requestCount m" "requestCount m < 2 ^ 63"
    and "- (2 ^ 63) \<le> totalResponseTime m" "totalResponseTime m < 2 ^ 63"
  shows "GetAvgResponseTime m = totalResponseTime m sdiv requestCount m"
proof -
  have r: "int64 (requestCount m) = requestCount m"
    using assms by (intro int64_id) simp_all
  have b: "- (2 ^ 63) \<le> totalResponseTime m sdiv requestCount m
      \<and> totalResponseTime m sdiv requestCount m < 2 ^ 63"
    using assms(1,3,4) by (rule sdiv_bounds) simp_all
  have "int64 (totalResponseTime m sdiv requestCount m) = totalResponseTime m sdiv requestCount m"
    using b by (intro int64_id) simp_all
  then show ?thesis using assms(1) r by (simp add: GetAvgResponseTime_def)
qed

lemma RecordRequest_fields:
  "requestCount (RecordRequest s ms m) = requestCount m + 1"
  "totalResponseTime (RecordRequest s ms m) = int64 (totalResponseTime m + ms)"
  "successCount (RecordRequest s ms m) = (if s then successCount m + 1 else successCount m)"
  "errorCount (RecordRequest s ms m) = (if s then errorCount m else errorCount m + 1)"
  "activeConnections (RecordRequest s ms m) = activeConnections m"
  "currentCalls (RecordRequest s ms m) = currentCalls m"
  "errors (RecordRequest s ms m) = errors m"
  "startTime (RecordRequest s ms m) = startTime m"
  by (simp_all add: RecordRequest_def Let_def)

text \<open>
  Claim C7. \<open>RecordRequest\<close> adds one to \<open>requestCount\<close>, adds the elapsed time to
  \<open>totalResponseTime\<close> (in 64-bit two's complement, so exactly while the sum stays in
  range), and adds one to exactly one of \<open>successCount\<close> and \<open>errorCount\<close>.
  \<open>GetSuccessRate\<close> is 100 when nothing was recorded and otherwise the quotient of
  \<open>successCount\<close> by \<open>requestCount\<close> times 100, computed in floating point; when no
  operation rounds it is that number exactly. \<open>GetAvgResponseTime\<close> is 0 when nothing
  was recorded and otherwise the truncating quotient of \<open>totalResponseTime\<close> by
  \<open>requestCount\<close>. From the initial state, recording a success of 100 ms and then a
  failure of 200 ms gives a request count of 2, a success rate of 50 and an average of 150.
\<close>

theorem C7_record_request_and_getters:
  "requestCount (RecordRequest success ms m) = requestCount m + 1
   \<and> totalResponseTime (RecordRequest success ms m) = int64 (totalResponseTime m + ms)
   \<and> (- (2 ^ 63) \<le> totalResponseTime m + ms \<and> totalResponseTime m + ms < 2 ^ 63
        \<longrightarrow> totalResponseTime (RecordRequest success ms m) = totalResponseTime m + ms)
   \<and> successCount (RecordRequest success ms m) = successCount m + (if success then 1 else 0)
   \<and> errorCount (RecordRequest success ms m) = errorCount m + (if success then 0 else 1)
   \<and> GetSuccessRate rnd m =
        (if requestCount m = 0 then 100
         else rnd (rnd (rnd (of_int (successCount m)) / rnd (of_int (requestCount m))) * 100))
   \<and> ((\<forall>x. rnd x = x) \<longrightarrow> GetSuccessRate rnd m =
        (if requestCount m = 0 then 100
         else of_int (successCount m) / of_int (requestCount m) * 100))
   \<and> GetAvgResponseTime m =
        (if requestCount m = 0 then 0
         else int64 (totalResponseTime m sdiv int64 (requestCount m)))
   \<and> GetSuccessRate rnd (initMetrics now) = 100 \<and> GetAvgResponseTime (initMetrics now) = 0
   \<and> (0 < requestCount m \<and> requestCount m < 2 ^ 63
        \<and> - (2 ^ 63) \<le> totalResponseTime m \<and> totalResponseTime m < 2 ^ 63
        \<longrightarrow> GetAvgResponseTime m = totalResponseTime m sdiv requestCount m)
   \<and> (rnd 1 = 1 \<and> rnd 2 = 2 \<and> rnd (1 / 2) = 1 / 2 \<and> rnd 50 = 50
        \<longrightarrow> (let m2 = RecordRequest False 200 (RecordRequest True 100 (initMetrics now))
             in requestCount m2 = 2 \<and> GetSuccessRate rnd m2 = 50
                \<and> GetAvgResponseTime m2 = 150))"
proof -
  let ?m2 = "RecordRequest False 200 (RecordRequest True 100 (initMetrics now))"
  have rate: "GetSuccessRate rnd ?m2 = rnd (rnd (rnd 1 / rnd 2) * 100)"
    by (simp add: RecordRequest_fields initMetrics_def GetSuccessRate_def)
  have avg: "GetAvgResponseTime ?m2 = 150"
    by (simp add: RecordRequest_fields initMetrics_def GetAvgResponseTime_def int64_def
        signed_divide_int_def)
  have cnt: "requestCount ?m2 = 2"
    by (simp add: RecordRequest_fields initMetrics_def)
  have ex: "let m2 = ?m2 in requestCount m2 = 2 \<and> GetSuccessRate rnd m2 = 50
                \<and> GetAvgResponseTime m2 = 150"
    if h: "rnd 1 = 1 \<and> rnd 2 = 2 \<and> rnd (1 / 2) = 1 / 2 \<and> rnd 50 = 50"
  proof -
    have "rnd (rnd (rnd 1 / rnd 2) * 100) = rnd (rnd (1 / 2) * 100)"
      using h by (simp only:)
    also have "\<dots> = rnd (1 / 2 * 100)" using h by (simp only:)
    also have "\<dots> = 50" using h by simp
    finally show ?thesis using rate avg cnt by (simp only: Let_def simp_thms)
  qed
  have avg_gen: "0 < requestCount m \<and> requestCount m < 2 ^ 63
        \<and> - (2 ^ 63) \<le> totalResponseTime m \<and> totalResponseTime m < 2 ^ 63
        \<longrightarrow> GetAvgResponseTime m = totalResponseTime m sdiv requestCount m"
    using GetAvgResponseTime_exact [of m] by blast
  have tot: "- (2 ^ 63) \<le> totalResponseTime m + ms \<and> totalResponseTime m + ms < 2 ^ 63
        \<longrightarrow> totalResponseTime (RecordRequest success ms m) = totalResponseTime m + ms"
    by (simp add: RecordRequest_fields int64_id)
  have exact: "(\<forall>x. rnd x = x) \<longrightarrow> GetSuccessRate rnd m =
        (if requestCount m = 0 then 100
         else of_int (successCount m) / of_int (requestCount m) * 100)"
    by (simp add: GetSuccessRate_def)
  have zero: "GetAvgResponseTime m =
        (if requestCount m = 0 then 0
         else int64 (totalResponseTime m sdiv int64 (requestCount m)))"
    "GetSuccessRate rnd (initMetrics now) = 100" "GetAvgResponseTime (initMetrics now) = 0"
    by (simp_all add: GetAvgResponseTime_def GetSuccessRate_def initMetrics_def)
  have f: "requestCount (RecordRequest success ms m) = requestCount m + 1"
    "totalResponseTime (RecordRequest success ms m) = int64 (totalResponseTime m + ms)"
    "successCount (RecordRequest success ms m) = successCount m + (if success then 1 else 0)"
    "errorCount (RecordRequest success ms m) = errorCount m + (if success then 0 else 1)"
    by (simp_all add: RecordRequest_fields)
  have def: "GetSuccessRate rnd m =
        (if requestCount m = 0 then 100
         else rnd (rnd (rnd (of_int (successCount m)) / rnd (of_int (requestCount m))) * 100))"
    by (simp add: GetSuccessRate_def)
  have ex': "rnd 1 = 1 \<and> rnd 2 = 2 \<and> rnd (1 / 2) = 1 / 2 \<and> rnd 50 = 50
        \<longrightarrow> (let m2 = ?m2 in requestCount m2 = 2 \<and> GetSuccessRate rnd m2 = 50
                \<and> GetAvgResponseTime m2 = 150)"
    using ex by (rule impI)
  show ?thesis
    by (intro conjI) (fact f tot def exact zero avg_gen ex')+
qed

lemma call_step_counters:
  "requestCount (call_step m c) = (case c of CallRecordRequest s ms \<Rightarrow> requestCount m + 1 | _ \<Rightarrow> requestCount m)"
  "successCount (call_step m c) = (case c of CallRecordRequest s ms \<Rightarrow> (if s then successCount m + 1 else successCount m) | _ \<Rightarrow> successCount m)"
  "errorCount (call_step m c) = (case c of CallRecordRequest s ms \<Rightarrow> (if s then errorCount m else errorCount m + 1) | _ \<Rightarrow> errorCount m)"
  by (cases c; simp add: RecordRequest_fields RecordError_def Let_def IncActiveConnections_def
      DecActiveConnections_def IncCurrentCalls_def DecCurrentCalls_def)+

lemma run_calls_Nil: "run_calls m [] = m"
  by (simp add: run_calls_def)

lemma run_calls_Cons: "run_calls m (c # cs) = run_calls (call_step m c) cs"
  by (simp add: run_calls_def)

lemma run_calls_counters:
  "requestCount m = successCount m + errorCount m \<and> 0 \<le> successCount m \<and> 0 \<le> errorCount m
   \<Longrightarrow> requestCount (run_calls m cs) = successCount (run_calls m cs) + errorCount (run_calls m cs)
       \<and> 0 \<le> successCount (run_calls m cs) \<and> 0 \<le> errorCount (run_calls m cs)"
proof (induction cs arbitrary: m)
  case Nil
  then show ?case by (simp add: run_calls_Nil)
next
  case (Cons c cs)
  have "requestCount (call_step m c) = successCount (call_step m c) + errorCount (call_step m c)
      \<and> 0 \<le> successCount (call_step m c) \<and> 0 \<le> errorCount (call_step m c)"
    using Cons.prems by (simp add: call_step_counters split: metrics_call.split)
  then show ?case unfolding run_calls_Cons by (rule Cons.IH)
qed

lemma run_calls_mono:
  "requestCount m \<le> requestCount (run_calls m cs)
   \<and> successCount m \<le> successCount (run_calls m cs)
   \<and> errorCount m \<le> errorCount (run_calls m cs)"
proof (induction cs arbitrary: m)
  case Nil
  show ?case by (simp add: run_calls_Nil)
next
  case (Cons c cs)
  have "requestCount m \<le> requestCount (call_step m c)
      \<and> successCount m \<le> successCount (call_step m c)
      \<and> errorCount m \<le> errorCount (call_step m c)"
    by (simp add: call_step_counters split: metrics_call.split)
  then show ?case unfolding run_calls_Cons using Cons.IH [of "call_step m c"] by linarith
qed

lemma GetSuccessRate_bounds:
  assumes mono: "mono rnd" and r0: "rnd 0 = 0" and r1: "rnd 1 = 1" and r100: "rnd 100 = 100"
    and inv: "requestCount m = successCount m + errorCount m" "0 \<le> successCount m"
      "0 \<le> errorCount m"
  shows "0 \<le> GetSuccessRate rnd m \<and> GetSuccessRate rnd m \<le> 100"
proof (cases "requestCount m = 0")
  case True
  then show ?thesis by (simp add: GetSuccessRate_def)
next
  case False
  let ?a = "rnd (of_int (successCount m))" and ?b = "rnd (of_int (requestCount m))"
  have "1 \<le> requestCount m" using False inv by linarith
  then have "(1::real) \<le> of_int (requestCount m)" by simp
  then have b1: "1 \<le> ?b" using monoD [OF mono, of 1 "of_int (requestCount m)"] r1 by simp
  have "(0::real) \<le> of_int (successCount m)" using inv by simp
  then have a0: "0 \<le> ?a" using monoD [OF mono, of 0 "of_int (successCount m)"] r0 by simp
  have "(of_int (successCount m) :: real) \<le> of_int (requestCount m)" using inv by simp
  then have ab: "?a \<le> ?b" by (rule monoD [OF mono])
  have q0: "0 \<le> ?a / ?b" using a0 b1 by simp
  have q1: "?a / ?b \<le> 1" using ab b1 by simp
  have rq0: "0 \<le> rnd (?a / ?b)" using monoD [OF mono q0] r0 by simp
  have rq1: "rnd (?a / ?b) \<le> 1" using monoD [OF mono q1] r1 by simp
  have p0: "0 \<le> rnd (?a / ?b) * 100" using rq0 by simp
  have p1: "rnd (?a / ?b) * 100 \<le> 100" using rq1 by simp
  have "0 \<le> rnd (rnd (?a / ?b) * 100)" using monoD [OF mono p0] r0 by simp
  moreover have "rnd (rnd (?a / ?b) * 100) \<le> 100" using monoD [OF mono p1] r100 by simp
  ultimately show ?thesis using False by (simp add: GetSuccessRate_def)
qed

lemma initMetrics_counters:
  "requestCount (initMetrics now) = 0" "successCount (initMetrics now) = 0"
  "errorCount (initMetrics now) = 0" "errors (initMetrics now) = []"
  "totalResponseTime (initMetrics now) = 0"
  by (simp_all add: initMetrics_def)

text \<open>
  Claim C10. In every state reached from the initial one by any history of calls,
  \<open>requestCount\<close> is the sum of \<open>successCount\<close> and \<open>errorCount\<close> and the three
  counters are not negative; a further \<open>RecordRequest\<close> keeps this and lowers none of
  them, and neither does any later history. Hence \<open>GetSuccessRate\<close> lies between 0 and
  100, for every rounding that is monotone and leaves 0, 1 and 100 unchanged, as
  round-to-nearest does.
\<close>

theorem C10_counter_invariant:
  "(let m = run_calls (initMetrics now) cs; m' = RecordRequest success ms m
    in requestCount m = successCount m + errorCount m
       \<and> 0 \<le> requestCount m \<and> 0 \<le> successCount m \<and> 0 \<le> errorCount m
       \<and> requestCount m' = successCount m' + errorCount m'
       \<and> 0 \<le> requestCount m' \<and> 0 \<le> successCount m' \<and> 0 \<le> errorCount m'
       \<and> requestCount m \<le> requestCount m' \<and> successCount m \<le> successCount m'
       \<and> errorCount m \<le> errorCount m'
       \<and> requestCount m \<le> requestCount (run_calls m cs')
       \<and> successCount m \<le> successCount (run_calls m cs')
       \<and> errorCount m \<le> errorCount (run_calls m cs')
       \<and> (mono rnd \<and> rnd 0 = 0 \<and> rnd 1 = 1 \<and> rnd 100 = 100
            \<longrightarrow> 0 \<le> GetSuccessRate rnd m \<and> GetSuccessRate rnd m \<le> 100))"
proof -
  let ?m = "run_calls (initMetrics now) cs"
  let ?m' = "RecordRequest success ms ?m"
  have inv: "requestCount ?m = successCount ?m + errorCount ?m
      \<and> 0 \<le> successCount ?m \<and> 0 \<le> errorCount ?m"
    by (rule run_calls_counters) (simp add: initMetrics_counters)
  then have nn: "0 \<le> requestCount ?m" by linarith
  have step: "requestCount ?m' = successCount ?m' + errorCount ?m'
      \<and> 0 \<le> requestCount ?m' \<and> 0 \<le> successCount ?m' \<and> 0 \<le> errorCount ?m'
      \<and> requestCount ?m \<le> requestCount ?m' \<and> successCount ?m \<le> successCount ?m'
      \<and> errorCount ?m \<le> errorCount ?m'"
    using inv by (simp add: RecordRequest_fields)
  have later: "requestCount ?m \<le> requestCount (run_calls ?m cs')
       \<and> successCount ?m \<le> successCount (run_calls ?m cs')
       \<and> errorCount ?m \<le> errorCount (run_calls ?m cs')"
    by (rule run_calls_mono)
  have rate: "mono rnd \<and> rnd 0 = 0 \<and> rnd 1 = 1 \<and> rnd 100 = 100
            \<longrightarrow> 0 \<le> GetSuccessRate rnd ?m \<and> GetSuccessRate rnd ?m \<le> 100"
    using inv GetSuccessRate_bounds [of rnd ?m] by blast
  show ?thesis
    unfolding Let_def using inv nn step later rate by (intro conjI; blast)
qed

lemma drop_tail_append:
  "drop (length (drop (length xs - n) xs @ ys) - n) (drop (length xs - n) xs @ ys)
     = drop (length (xs @ ys) - n) (xs @ ys)"
proof (cases "length xs \<le> n")
  case True
  then show ?thesis by simp
next
  case False
  then have "length (drop (length xs - n) xs) = n" by simp
  then show ?thesis using False by (simp add: add.commute)
qed

lemma RecordError_errors:
  "errors (RecordError now ty msg m) =
     drop (length (errors m @ [\<lparr>Timestamp = now, ErrorType = ty, Message = msg\<rparr>]) - 100)
       (errors m @ [\<lparr>Timestamp = now, ErrorType = ty, Message = msg\<rparr>])"
  by (simp add: RecordError_def Let_def)

lemma call_step_errors:
  assumes "errors m = drop (length pre - 100) pre"
  shows "errors (call_step m c)
      = drop (length (pre @ error_records_of [c]) - 100) (pre @ error_records_of [c])"
proof (cases c)
  case (CallRecordError now ty msg)
  show ?thesis
    unfolding CallRecordError call_step.simps RecordError_errors assms error_records_of.simps
    by (rule drop_tail_append)
qed (simp_all add: assms RecordRequest_fields IncActiveConnections_def
      DecActiveConnections_def IncCurrentCalls_def DecCurrentCalls_def)

lemma error_records_of_Cons:
  "error_records_of (c # cs) = error_records_of [c] @ error_records_of cs"
  by (cases c) simp_all

lemma run_calls_errors:
  "errors m = drop (length pre - 100) pre
   \<Longrightarrow> errors (run_calls m cs)
       = drop (length (pre @ error_records_of cs) - 100) (pre @ error_records_of cs)"
proof (induction cs arbitrary: m pre)
  case Nil
  then show ?case by (simp add: run_calls_Nil)
next
  case (Cons c cs)
  have "errors (call_step m c)
      = drop (length (pre @ error_records_of [c]) - 100) (pre @ error_records_of [c])"
    using Cons.prems by (rule call_step_errors)
  then have "errors (run_calls (call_step m c) cs)
      = drop (length ((pre @ error_records_of [c]) @ error_records_of cs) - 100)
          ((pre @ error_records_of [c]) @ error_records_of cs)"
    by (rule Cons.IH)
  then show ?case
    unfolding run_calls_Cons error_records_of_Cons [of c cs] by (simp only: append_assoc)
qed

text \<open>
  Claim C8. After any history of calls from the initial state the error log holds at most
  100 records: the most recent 100 of the records passed to \<open>RecordError\<close>, in the order
  of their arrival. After 105 such calls these are exactly the last 100, the first five
  having been dropped.
\<close>

theorem C8_error_log_bounded:
  "(let m = run_calls (initMetrics now) cs; rs = error_records_of cs
    in length (errors m) \<le> 100
       \<and> errors m = drop (length rs - 100) rs
       \<and> GetErrorRecords m = errors m
       \<and> (length rs = 105 \<longrightarrow> errors m = drop 5 rs \<and> length (errors m) = 100))"
proof -
  have e: "errors (run_calls (initMetrics now) cs)
      = drop (length ([] @ error_records_of cs) - 100) ([] @ error_records_of cs)"
    by (rule run_calls_errors) (simp add: initMetrics_counters)
  then have e': "errors (run_calls (initMetrics now) cs)
      = drop (length (error_records_of cs) - 100) (error_records_of cs)" by simp
  show ?thesis
    unfolding Let_def e' by (simp add: GetErrorRecords_def e')
qed

section \<open>Properties of the frame codec\<close>

lemma low_nibble_le: "unat ((x::byte) AND 0x0f) \<le> 15"
proof -
  have "x AND 0x0f = take_bit 4 x"
    by (simp add: take_bit_eq_mask mask_eq_exp_minus_1)
  then have "unat (x AND 0x0f) = take_bit 4 (unat x)"
    by (simp add: unsigned_take_bit_eq)
  also have "\<dots> < 2 ^ 4" by (rule take_bit_nat_less_exp)
  finally show ?thesis by simp
qed

lemma headSize_bytes: "unat (((x::byte) AND 0x0f) * 4) = 4 * unat (x AND 0x0f)"
proof -
  have "unat ((x AND 0x0f) * 4) = (unat (x AND 0x0f) * 4) mod 256"
    by (simp add: unat_word_ariths)
  also have "\<dots> = unat (x AND 0x0f) * 4" using low_nibble_le [of x] by simp
  finally show ?thesis by simp
qed

lemma BigEndian_roundtrip: "BigEndian_Uint32 (BigEndian_PutUint32 v) = v"
proof (rule bit_word_eqI)
  fix n assume n: "n < LENGTH(32)"
  consider "n < 8" | "8 \<le> n" "n < 16" | "16 \<le> n" "n < 24" | "24 \<le> n" "n < 32"
    using n by fastforce
  then show "bit (BigEndian_Uint32 (BigEndian_PutUint32 v)) n = bit v n"
    by cases (auto simp add: BigEndian_Uint32_def BigEndian_PutUint32_def bit_simps)
qed

lemma length_PutUint32: "length (BigEndian_PutUint32 v) = 4"
  by (simp add: BigEndian_PutUint32_def)

lemma PutUint32_digits:
  "map unat (BigEndian_PutUint32 v) =
     [unat v div 2 ^ 24 mod 256, unat v div 2 ^ 16 mod 256, unat v div 2 ^ 8 mod 256,
      unat v mod 256]"
  by (simp add: BigEndian_PutUint32_def unsigned_ucast_eq unat_drop_bit_eq drop_bit_eq_div
      take_bit_eq_mod unat_div)

lemma PutUint32_Uint32: "BigEndian_PutUint32 (BigEndian_Uint32 [a, b, c, d]) = [a, b, c, d]"
proof -
  have "ucast (drop_bit 24 (BigEndian_Uint32 [a, b, c, d])) = a"
    by (rule bit_word_eqI) (auto simp add: BigEndian_Uint32_def bit_simps dest: bit_imp_le_length)
  moreover have "ucast (drop_bit 16 (BigEndian_Uint32 [a, b, c, d])) = b"
    by (rule bit_word_eqI) (auto simp add: BigEndian_Uint32_def bit_simps dest: bit_imp_le_length)
  moreover have "ucast (drop_bit 8 (BigEndian_Uint32 [a, b, c, d])) = c"
    by (rule bit_word_eqI) (auto simp add: BigEndian_Uint32_def bit_simps dest: bit_imp_le_length)
  moreover have "ucast (BigEndian_Uint32 [a, b, c, d]) = d"
    by (rule bit_word_eqI) (auto simp add: BigEndian_Uint32_def bit_simps dest: bit_imp_le_length)
  ultimately show ?thesis by (simp add: BigEndian_PutUint32_def)
qed

lemma base256_digits:
  assumes "(n::nat) < 2 ^ 32"
  shows "n = (n div 2 ^ 24 mod 256) * 2 ^ 24 + (n div 2 ^ 16 mod 256) * 2 ^ 16
         + (n div 2 ^ 8 mod 256) * 2 ^ 8 + n mod 256"
proof -
  have top: "n div 16777216 mod 256 = n div 16777216"
    using assms by (simp add: less_mult_imp_div_less)
  have e1: "n = n div 256 * 256 + n mod 256" by simp
  have e2: "n div 256 = n div 65536 * 256 + n div 256 mod 256"
    using div_mult_mod_eq [of "n div 256" 256] by (simp add: div_mult2_eq [symmetric])
  have e3: "n div 65536 = n div 16777216 * 256 + n div 65536 mod 256"
    using div_mult_mod_eq [of "n div 65536" 256] by (simp add: div_mult2_eq [symmetric])
  have "n = ((n div 16777216 * 256 + n div 65536 mod 256) * 256 + n div 256 mod 256) * 256
      + n mod 256"
    using e1 e2 e3 by presburger
  then show ?thesis by (simp add: top algebra_simps)
qed

lemma Uint32_digits:
  "unat (BigEndian_Uint32 [a, b, c, d]) = unat a * 2 ^ 24 + unat b * 2 ^ 16 + unat c * 2 ^ 8 + unat d"
proof -
  let ?w = "BigEndian_Uint32 [a, b, c, d]"
  have "map unat (BigEndian_PutUint32 ?w) = map unat [a, b, c, d]"
    by (simp only: PutUint32_Uint32)
  then have d: "unat a = unat ?w div 2 ^ 24 mod 256" "unat b = unat ?w div 2 ^ 16 mod 256"
    "unat c = unat ?w div 2 ^ 8 mod 256" "unat d = unat ?w mod 256"
    unfolding PutUint32_digits by simp_all
  have "unat ?w < 2 ^ 32" using unsigned_less [of ?w] by simp
  then show ?thesis unfolding d by (rule base256_digits)
qed

lemma parse_header:
  "parseByteDanceResponse gz res =
     (if length res < 4 then Inl ResponseTooShort
      else if length res < 4 * unat (res ! 0 AND 0x0f) then Inl HeaderSizeExceedsData
      else dispatchMessage gz (drop_bit 4 (res ! 1)) (res ! 1 AND 0x0f) (res ! 2 AND 0x0f)
             (drop (4 * unat (res ! 0 AND 0x0f)) res))"
  by (simp add: parseByteDanceResponse_def Let_def headSize_bytes)

lemma dispatch_audio:
  "dispatchMessage gz 0xb flags compression payload =
     (if flags = 0 then Inr \<lparr>Audio = [], IsLast = False\<rparr>
      else if length payload < 8 then Inl AudioInsufficientData
      else Inr \<lparr>Audio = drop 8 payload,
                IsLast = (sint (BigEndian_Uint32 (take 4 payload)) < 0)\<rparr>)"
  by (simp add: dispatchMessage_def Let_def)

lemma parse_audio_frame:
  "parseByteDanceResponse gz
     ([0x11, 0xb1, 0x10, 0x00] @ BigEndian_PutUint32 sequenceNumber @ BigEndian_PutUint32 payloadSize
        @ audioBytes)
   = Inr \<lparr>Audio = audioBytes, IsLast = (sint sequenceNumber < 0)\<rparr>"
proof -
  let ?payload = "BigEndian_PutUint32 sequenceNumber @ BigEndian_PutUint32 payloadSize @ audioBytes"
  have h: "unat ((0x11 :: byte) AND 0x0f) = 1" by simp
  have t: "take 4 ?payload = BigEndian_PutUint32 sequenceNumber"
    by (simp add: length_PutUint32)
  have d: "drop 8 ?payload = audioBytes"
    by (simp add: length_PutUint32)
  have l: "\<not> length ?payload < 8" by (simp add: length_PutUint32)
  have f: "(0xb1 :: byte) AND 0x0f = 1" "drop_bit 4 (0xb1 :: byte) = 0xb" by simp_all
  have "parseByteDanceResponse gz ([0x11, 0xb1, 0x10, 0x00] @ ?payload)
      = dispatchMessage gz 0xb 1 0 ?payload"
    unfolding parse_header by (simp add: length_PutUint32)
  also have "\<dots> = Inr \<lparr>Audio = audioBytes, IsLast = (sint sequenceNumber < 0)\<rparr>"
    unfolding dispatch_audio t d using l by (simp add: BigEndian_roundtrip)
  finally show ?thesis .
qed

text \<open>
  Claim C2. For a frame whose header fits and whose message type is \<open>0xB\<close>: with a flags
  nibble of 0 the result is the empty acknowledgment (no audio, not last); otherwise the
  payload must hold at least 8 bytes, the sequence number is the big-endian signed 32-bit
  value of its first four bytes, the audio is the payload from byte 8 on, and the response
  is the last one exactly when the sequence number is negative. In particular a frame with
  flags 1, sequence number 5 and audio bytes \<open>X\<close> decodes to \<open>X\<close>, not last, and with
  sequence number -1 to \<open>X\<close>, last.
\<close>

theorem C2_audio_frame:
  "(4 \<le> length res \<and> 4 * unat (res ! 0 AND 0x0f) \<le> length res \<and> drop_bit 4 (res ! 1) = 0xb
     \<longrightarrow> parseByteDanceResponse gz res =
       (let flags = res ! 1 AND 0x0f;
            payload = drop (4 * unat (res ! 0 AND 0x0f)) res;
            sequenceNumber = BigEndian_Uint32 (take 4 payload)
        in if flags = 0 then Inr \<lparr>Audio = [], IsLast = False\<rparr>
           else if length payload < 8 then Inl AudioInsufficientData
           else Inr \<lparr>Audio = drop 8 payload, IsLast = (sint sequenceNumber < 0)\<rparr>))
   \<and> parseByteDanceResponse gz
         ([0x11, 0xb1, 0x10, 0x00] @ BigEndian_PutUint32 5 @ BigEndian_PutUint32 payloadSize @ X)
       = Inr \<lparr>Audio = X, IsLast = False\<rparr>
   \<and> parseByteDanceResponse gz
         ([0x11, 0xb1, 0x10, 0x00] @ BigEndian_PutUint32 (- 1) @ BigEndian_PutUint32 payloadSize @ X)
       = Inr \<lparr>Audio = X, IsLast = True\<rparr>"
proof (intro conjI impI)
  assume "4 \<le> length res \<and> 4 * unat (res ! 0 AND 0x0f) \<le> length res
    \<and> drop_bit 4 (res ! 1) = 0xb"
  then show "parseByteDanceResponse gz res =
       (let flags = res ! 1 AND 0x0f;
            payload = drop (4 * unat (res ! 0 AND 0x0f)) res;
            sequenceNumber = BigEndian_Uint32 (take 4 payload)
        in if flags = 0 then Inr \<lparr>Audio = [], IsLast = False\<rparr>
           else if length payload < 8 then Inl AudioInsufficientData
           else Inr \<lparr>Audio = drop 8 payload, IsLast = (sint sequenceNumber < 0)\<rparr>)"
    unfolding parse_header Let_def by (simp add: dispatch_audio)
next
  show "parseByteDanceResponse gz
         ([0x11, 0xb1, 0x10, 0x00] @ BigEndian_PutUint32 5 @ BigEndian_PutUint32 payloadSize @ X)
       = Inr \<lparr>Audio = X, IsLast = False\<rparr>"
    unfolding parse_audio_frame by simp
next
  show "parseByteDanceResponse gz
         ([0x11, 0xb1, 0x10, 0x00] @ BigEndian_PutUint32 (- 1) @ BigEndian_PutUint32 payloadSize @ X)
       = Inr \<lparr>Audio = X, IsLast = True\<rparr>"
    unfolding parse_audio_frame by simp
qed

theorem C2_audio_frame_witness:
  "4 \<le> length [0x11, 0xb1, 0x10, 0x00, 0, 0, 0, 5, 0, 0, 0, 2, 0xaa, 0xbb :: byte]
   \<and> 4 * unat ([0x11, 0xb1, 0x10, 0x00, 0, 0, 0, 5, 0, 0, 0, 2, 0xaa, 0xbb :: byte] ! 0 AND 0x0f)
        \<le> length [0x11, 0xb1, 0x10, 0x00, 0, 0, 0, 5, 0, 0, 0, 2, 0xaa, 0xbb :: byte]
   \<and> drop_bit 4 ([0x11, 0xb1, 0x10, 0x00, 0, 0, 0, 5, 0, 0, 0, 2, 0xaa, 0xbb :: byte] ! 1) = 0xb
   \<and> parseByteDanceResponse (\<lambda>b. None)
        [0x11, 0xb1, 0x10, 0x00, 0, 0, 0, 5, 0, 0, 0, 2, 0xaa, 0xbb]
       = Inr \<lparr>Audio = [0xaa, 0xbb], IsLast = False\<rparr>"
  using C2_audio_frame [of "[0x11, 0xb1, 0x10, 0x00, 0, 0, 0, 5, 0, 0, 0, 2, 0xaa, 0xbb]" "\<lambda>b. None"]
  by (simp add: BigEndian_Uint32_def)

text \<open>
  Claim C6. \<open>parseByteDanceResponse\<close> fails when the frame has fewer than 4 bytes, and
  when four times the low nibble of byte 0 exceeds the length of the frame; otherwise the
  payload handed to the dispatch on the message type is the frame without its first
  \<open>4 * headSize\<close> bytes.
\<close>

theorem C6_header_validation:
  "parseByteDanceResponse gz res =
     (if length res < 4 then Inl ResponseTooShort
      else if length res < 4 * unat (res ! 0 AND 0x0f) then Inl HeaderSizeExceedsData
      else dispatchMessage gz (drop_bit 4 (res ! 1)) (res ! 1 AND 0x0f) (res ! 2 AND 0x0f)
             (drop (4 * unat (res ! 0 AND 0x0f)) res))
   \<and> parseByteDanceResponse gz [0x11, 0xb1, 0x10] = Inl ResponseTooShort
   \<and> parseByteDanceResponse gz [0x12, 0xb1, 0x10, 0x00, 0, 0, 0] = Inl HeaderSizeExceedsData"
  by (simp add: parse_header)

section \<open>Properties of the upstream relay\<close>

lemma frames_written_append:
  "frames_written (xs @ ys) = frames_written xs @ frames_written ys"
  by (induction xs rule: frames_written.induct) simp_all

lemma receiveLoop_log:
  "\<exists>k. snd (receiveLoop gz rs audio lg) = lg @ replicate (Suc k) EvRead"
proof (induction rs arbitrary: audio lg)
  case Nil
  have "snd (receiveLoop gz [] audio lg) = lg @ replicate (Suc 0) EvRead" by simp
  then show ?case by blast
next
  case (Cons r rs)
  show ?case
  proof (cases r)
    case (ReadFails err)
    have "snd (receiveLoop gz (r # rs) audio lg) = lg @ replicate (Suc 0) EvRead"
      unfolding ReadFails by simp
    then show ?thesis by blast
  next
    case (ReadOk message)
    show ?thesis
    proof (cases "parseByteDanceResponse gz message")
      case (Inl perr)
      have "snd (receiveLoop gz (r # rs) audio lg) = lg @ replicate (Suc 0) EvRead"
        unfolding ReadOk by (simp add: Inl)
      then show ?thesis by blast
    next
      case (Inr resp)
      show ?thesis
      proof (cases "IsLast resp")
        case True
        have "snd (receiveLoop gz (r # rs) audio lg) = lg @ replicate (Suc 0) EvRead"
          unfolding ReadOk by (simp add: Inr True)
        then show ?thesis by blast
      next
        case False
        obtain k where k: "snd (receiveLoop gz rs (audio @ Audio resp) (lg @ [EvRead]))
            = (lg @ [EvRead]) @ replicate (Suc k) EvRead"
          using Cons.IH by blast
        have "snd (receiveLoop gz (r # rs) audio lg) = lg @ replicate (Suc (Suc k)) EvRead"
          unfolding ReadOk using k by (simp add: Inr False)
        then show ?thesis by blast
      qed
    qed
  qed
qed

lemma frames_written_reads: "frames_written (replicate k EvRead) = []"
  by (induction k) simp_all

lemma receiveLoop_frames:
  "frames_written (snd (receiveLoop gz rs audio lg)) = frames_written lg"
proof -
  obtain k where "snd (receiveLoop gz rs audio lg) = lg @ replicate (Suc k) EvRead"
    using receiveLoop_log by blast
  then show ?thesis by (simp only: frames_written_append frames_written_reads append_Nil2)
qed

lemma try_send_recv: "try_send c = Some c' \<Longrightarrow> recv c' = Some c"
  by (auto simp add: try_send_def recv_def split: if_splits)

lemma setup_too_long:
  "MaxTextLength appConfig < int (length txt) \<Longrightarrow>
     setupByteDanceInput marshal reqID appConfig txt opt speed
       = Inl (ErrTextTooLong (length txt) (MaxTextLength appConfig))"
  by (simp add: setupByteDanceInput_def)

lemma admitted_too_long:
  "MaxTextLength appConfig < int (length txt) \<Longrightarrow>
     streamSynthesize_admitted up appConfig txt speed w
       = (Some (Inl (ErrTextTooLong (length txt) (MaxTextLength appConfig))), w)"
  by (simp add: streamSynthesize_admitted_def setup_too_long)

lemma streamSynthesize_full_gate:
  "try_send (semaphore w) = None \<Longrightarrow>
     streamSynthesize up appConfig txt voiceType speed w
       = (Some (Inl (ErrTooManyConnections (MaxConcurrentCalls appConfig))), w)"
  by (simp add: streamSynthesize_def)

text \<open>
  Claim C4. For a text longer than \<open>MaxTextLength\<close>, \<open>setupByteDanceInput\<close> fails with
  \<open>ErrTextTooLong\<close>; \<open>streamSynthesize\<close> then returns that error whenever the gate
  admits the call (and \<open>ErrTooManyConnections\<close> when it does not), performs no network
  operation at all, and leaves the gate as it found it.
\<close>

theorem C4_text_too_long_before_network:
  "MaxTextLength appConfig < int (length txt) \<longrightarrow>
     setupByteDanceInput (json_Marshal up) (new_uuid up) appConfig txt optSubmit speed
       = Inl (ErrTextTooLong (length txt) (MaxTextLength appConfig))
     \<and> fst (streamSynthesize up appConfig txt voiceType speed w)
       = Some (Inl (if try_send (semaphore w) = None
                    then ErrTooManyConnections (MaxConcurrentCalls appConfig)
                    else ErrTextTooLong (length txt) (MaxTextLength appConfig)))
     \<and> net_log (snd (streamSynthesize up appConfig txt voiceType speed w)) = net_log w
     \<and> semaphore (snd (streamSynthesize up appConfig txt voiceType speed w)) = semaphore w"
proof (intro impI conjI)
  assume long: "MaxTextLength appConfig < int (length txt)"
  show "setupByteDanceInput (json_Marshal up) (new_uuid up) appConfig txt optSubmit speed
       = Inl (ErrTextTooLong (length txt) (MaxTextLength appConfig))"
    using long by (rule setup_too_long)
  show "fst (streamSynthesize up appConfig txt voiceType speed w)
       = Some (Inl (if try_send (semaphore w) = None
                    then ErrTooManyConnections (MaxConcurrentCalls appConfig)
                    else ErrTextTooLong (length txt) (MaxTextLength appConfig)))"
  proof (cases "try_send (semaphore w)")
    case None
    then show ?thesis by (simp add: streamSynthesize_full_gate)
  next
    case (Some c)
    then show ?thesis
      using long try_send_recv [OF Some]
      by (simp add: streamSynthesize_def admitted_too_long)
  qed
  show "net_log (snd (streamSynthesize up appConfig txt voiceType speed w)) = net_log w"
  proof (cases "try_send (semaphore w)")
    case None
    then show ?thesis by (simp add: streamSynthesize_full_gate)
  next
    case (Some c)
    then show ?thesis
      using long try_send_recv [OF Some]
      by (simp add: streamSynthesize_def admitted_too_long)
  qed
  show "semaphore (snd (streamSynthesize up appConfig txt voiceType speed w)) = semaphore w"
  proof (cases "try_send (semaphore w)")
    case None
    then show ?thesis by (simp add: streamSynthesize_full_gate)
  next
    case (Some c)
    then show ?thesis
      using long try_send_recv [OF Some]
      by (simp add: streamSynthesize_def admitted_too_long)
  qed
qed

lemma receiveLoop_read_failure:
  "receiveLoop gz (ReadFails err # rest) audio lg =
     (Some (if audio \<noteq> []
               \<and> (case err of CloseError code _ \<Rightarrow> code \<noteq> 1001 \<and> code \<noteq> 1006
                   | NetError _ \<Rightarrow> False)
            then Inr audio else Inl (ErrMessageReadFailed err)),
      lg @ [EvRead])"
  by (cases err)
    (simp_all add: IsUnexpectedCloseError_def CloseGoingAway_def CloseAbnormalClosure_def)

lemma receiveLoop_read_failure_no_audio:
  "receiveLoop gz (ReadFails err # rest) [] lg
     = (Some (Inl (ErrMessageReadFailed err)), lg @ [EvRead])"
  by simp

lemma receiveLoop_failure_before_audio:
  assumes "\<forall>m \<in> set msgs. \<exists>resp. parseByteDanceResponse gz m = Inr resp \<and> Audio resp = []
      \<and> \<not> IsLast resp"
  shows "fst (receiveLoop gz (map ReadOk msgs @ ReadFails err # rest) [] lg)
      = Some (Inl (ErrMessageReadFailed err))"
  using assms
proof (induction msgs arbitrary: lg)
  case Nil
  show ?case by simp
next
  case (Cons m msgs)
  obtain resp where r: "parseByteDanceResponse gz m = Inr resp" "Audio resp = []" "\<not> IsLast resp"
    using Cons.prems by auto
  have "fst (receiveLoop gz (map ReadOk msgs @ ReadFails err # rest) [] (lg @ [EvRead]))
      = Some (Inl (ErrMessageReadFailed err))"
    using Cons.prems by (intro Cons.IH) simp
  then show ?case using r by simp
qed

lemma receiveLoop_audio_step:
  "parseByteDanceResponse gz message = Inr resp \<Longrightarrow> \<not> IsLast resp \<Longrightarrow>
     receiveLoop gz (ReadOk message # rest) audio lg
       = receiveLoop gz rest (audio @ Audio resp) (lg @ [EvRead])"
  by simp

text \<open>
  Claim C1. The claim has the receive loop return the accumulated audio as a success when
  a read fails with a close error after audio has arrived. The loop asks
  \<open>IsUnexpectedCloseError\<close> with the codes for going away and abnormal closure as the
  expected ones, which is false for exactly these two codes. So when the upstream drops the
  connection after an audio chunk (an abnormal closure), or goes away, the call fails with
  \<open>ErrMessageReadFailed\<close> and the audio is discarded; after the same chunk a close with
  code 1000 does return the audio.
\<close>

theorem C1_abnormal_closure_after_audio:
  "fst (streamSynthesize
          (demo_upstream
             [ReadOk [0x11, 0xb1, 0x10, 0x00, 0, 0, 0, 1, 0, 0, 0, 2, 0xaa, 0xbb],
              ReadFails (CloseError CloseAbnormalClosure ''unexpected EOF'')])
          demo_config ''hello'' ''alloy'' 1 demo_world)
     = Some (Inl (ErrMessageReadFailed (CloseError CloseAbnormalClosure ''unexpected EOF'')))
   \<and> fst (streamSynthesize
          (demo_upstream
             [ReadOk [0x11, 0xb1, 0x10, 0x00, 0, 0, 0, 1, 0, 0, 0, 2, 0xaa, 0xbb],
              ReadFails (CloseError CloseGoingAway ''going away'')])
          demo_config ''hello'' ''alloy'' 1 demo_world)
     = Some (Inl (ErrMessageReadFailed (CloseError CloseGoingAway ''going away'')))
   \<and> fst (streamSynthesize
          (demo_upstream
             [ReadOk [0x11, 0xb1, 0x10, 0x00, 0, 0, 0, 1, 0, 0, 0, 2, 0xaa, 0xbb],
              ReadFails (CloseError 1000 ''normal closure'')])
          demo_config ''hello'' ''alloy'' 1 demo_world)
     = Some (Inr [0xaa, 0xbb])"
  by (simp add: streamSynthesize_def streamSynthesize_admitted_def demo_upstream_def
      demo_config_def demo_world_def try_send_def recv_def setupByteDanceInput_def
      clientRequest_of_def Let_def parse_header dispatch_audio IsUnexpectedCloseError_def
      CloseGoingAway_def CloseAbnormalClosure_def BigEndian_Uint32_def)

lemma clientRequest_layout:
  "clientRequest_of input =
     [0x11, 0x10, 0x11, 0x00] @ BigEndian_PutUint32 (word_of_nat (length input)) @ input"
  by (simp add: clientRequest_of_def defaultHeader_def Let_def)

lemma clientRequest_length_field:
  assumes "length input < 2 ^ 32"
  shows "unat (BigEndian_Uint32 (take 4 (drop 4 (clientRequest_of input)))) = length input"
proof -
  have "take 4 (drop 4 (clientRequest_of input))
      = BigEndian_PutUint32 (word_of_nat (length input))"
    by (simp add: clientRequest_layout length_PutUint32)
  then have "unat (BigEndian_Uint32 (take 4 (drop 4 (clientRequest_of input))))
      = unat (word_of_nat (length input) :: 32 word)"
    by (simp only: BigEndian_roundtrip)
  also have "\<dots> = length input" using assms by (simp add: unat_of_nat)
  finally show ?thesis .
qed

lemma clientRequest_length_digits:
  assumes "length input < 2 ^ 32"
  shows "map unat (take 4 (drop 4 (clientRequest_of input)))
      = [length input div 2 ^ 24 mod 256, length input div 2 ^ 16 mod 256,
         length input div 2 ^ 8 mod 256, length input mod 256]"
proof -
  have "take 4 (drop 4 (clientRequest_of input))
      = BigEndian_PutUint32 (word_of_nat (length input))"
    by (simp add: clientRequest_layout length_PutUint32)
  moreover have "unat (word_of_nat (length input) :: 32 word) = length input"
    using assms by (simp add: unat_of_nat)
  ultimately show ?thesis by (simp only: PutUint32_digits)
qed

lemma clientRequest_body: "drop 8 (clientRequest_of input) = input"
  by (simp add: clientRequest_layout length_PutUint32)

lemma setup_Inr:
  "setupByteDanceInput marshal reqID appConfig txt opt speed = Inr body
     \<Longrightarrow> int (length txt) \<le> MaxTextLength appConfig \<and> (\<exists>params. marshal params = Some body)"
  by (auto simp add: setupByteDanceInput_def Let_def split: if_splits option.splits)

lemma admitted_frames:
  assumes "setupByteDanceInput (json_Marshal up) (new_uuid up) appConfig txt optSubmit speed
      = Inr body"
    and "dial_error up = None"
  shows "frames_written (net_log (snd (streamSynthesize_admitted up appConfig txt speed w)))
      = frames_written (net_log w) @ [clientRequest_of (gzipCompress up body)]"
proof (cases "write_error up")
  case (Some err)
  then show ?thesis using assms
    by (simp add: streamSynthesize_admitted_def Let_def frames_written_append)
next
  case None
  let ?lg = "net_log w @ [EvDial, EvWrite (clientRequest_of (gzipCompress up body))]"
  obtain r lg' where rl: "receiveLoop (gunzip up) (incoming up) [] ?lg = (r, lg')"
    by (cases "receiveLoop (gunzip up) (incoming up) [] ?lg") blast
  have "frames_written lg' = frames_written ?lg"
    using receiveLoop_frames [of "gunzip up" "incoming up" "[]" ?lg] rl by simp
  then have f: "frames_written lg'
      = frames_written (net_log w) @ [clientRequest_of (gzipCompress up body)]"
    by (simp add: frames_written_append)
  show ?thesis
    using assms None rl f
    by (cases r) (simp_all add: streamSynthesize_admitted_def Let_def frames_written_append)
qed

lemma streamSynthesize_net_log:
  assumes "try_send (semaphore w) = Some c"
  shows "net_log (snd (streamSynthesize up appConfig txt voiceType speed w))
      = net_log (snd (streamSynthesize_admitted up appConfig txt speed
          (w\<lparr>semaphore := c, GlobalMetrics := IncCurrentCalls (GlobalMetrics w)\<rparr>)))"
proof -
  let ?w1 = "w\<lparr>semaphore := c, GlobalMetrics := IncCurrentCalls (GlobalMetrics w)\<rparr>"
  obtain r w2 where a: "streamSynthesize_admitted up appConfig txt speed ?w1 = (r, w2)"
    by (cases "streamSynthesize_admitted up appConfig txt speed ?w1") blast
  show ?thesis
    using assms a
    by (cases r; cases "recv (semaphore w2)") (simp_all add: streamSynthesize_def Let_def)
qed

lemma setup_in_limit:
  "int (length txt) \<le> MaxTextLength appConfig \<Longrightarrow>
     setupByteDanceInput marshal reqID appConfig txt opt speed =
       (case marshal
          [''app'' \<mapsto> [''appid'' \<mapsto> JString (ByteDanceAppID appConfig),
                      ''token'' \<mapsto> JString (ByteDanceToken appConfig),
                      ''cluster'' \<mapsto> JString (ByteDanceCluster appConfig)],
           ''user'' \<mapsto> [''uid'' \<mapsto> JString ''uid''],
           ''audio'' \<mapsto> [''voice_type'' \<mapsto> JString (ByteDanceVoiceType appConfig),
                        ''encoding'' \<mapsto> JString ''mp3'',
                        ''speed_ratio'' \<mapsto> JNumber speed,
                        ''volume_ratio'' \<mapsto> JNumber 1.0,
                        ''pitch_ratio'' \<mapsto> JNumber 1.0],
           ''request'' \<mapsto> [''reqid'' \<mapsto> JString reqID, ''text'' \<mapsto> JString txt,
                          ''text_type'' \<mapsto> JString ''plain'',
                          ''operation'' \<mapsto> JString opt]]
        of None \<Rightarrow> Inl ErrMarshalFailed | Some resStr \<Rightarrow> Inr resStr)"
  by (simp add: setupByteDanceInput_def Let_def)

lemma streamSynthesize_frames:
  assumes "try_send (semaphore w) = Some c"
    and "setupByteDanceInput (json_Marshal up) (new_uuid up) appConfig txt optSubmit speed
      = Inr body"
    and "dial_error up = None"
  shows "frames_written (net_log (snd (streamSynthesize up appConfig txt voiceType speed w)))
      = frames_written (net_log w) @ [clientRequest_of (gzipCompress up body)]"
  using assms admitted_frames [of up appConfig "txt" speed body
      "w\<lparr>semaphore := c, GlobalMetrics := IncCurrentCalls (GlobalMetrics w)\<rparr>"]
  by (simp add: streamSynthesize_net_log [of w c])

text \<open>
  Claim C3. The request frame is the header \<open>0x11 0x10 0x11 0x00\<close>, then the length of
  the compressed body as four big-endian bytes, then the compressed body. The nibbles of
  the header are: version 1, header size 1 word, message type 1 (full client request),
  flags 0, serialization 1 (JSON), compression 1 (gzip), and a reserved byte of 0. The
  four length bytes hold the length itself while it is below \<open>2 ^ 32\<close>. For every text
  that passes the length check, \<open>setupByteDanceInput\<close> returns what \<open>json.Marshal\<close>
  makes of the parameter object built from the configuration, the request id, the text,
  the operation \<open>submit\<close> and the speed (and fails only if \<open>json.Marshal\<close> does); and
  when the gate admits the call and the dial succeeds, \<open>streamSynthesize\<close> writes exactly
  one frame: the header, the big-endian length of the compressed JSON and the compressed
  JSON.
\<close>

theorem C3_request_frame:
  "clientRequest_of input =
     [0x11, 0x10, 0x11, 0x00] @ BigEndian_PutUint32 (word_of_nat (length input)) @ input
   \<and> drop 8 (clientRequest_of input) = input
   \<and> (length input < 2 ^ 32 \<longrightarrow>
        unat (BigEndian_Uint32 (take 4 (drop 4 (clientRequest_of input)))) = length input
        \<and> map unat (take 4 (drop 4 (clientRequest_of input)))
            = [length input div 2 ^ 24 mod 256, length input div 2 ^ 16 mod 256,
               length input div 2 ^ 8 mod 256, length input mod 256])
   \<and> drop_bit 4 (defaultHeader ! 0) = 1 \<and> defaultHeader ! 0 AND 0x0f = 1
   \<and> drop_bit 4 (defaultHeader ! 1) = 1 \<and> defaultHeader ! 1 AND 0x0f = 0
   \<and> drop_bit 4 (defaultHeader ! 2) = 1 \<and> defaultHeader ! 2 AND 0x0f = 1
   \<and> defaultHeader ! 3 = 0
   \<and> (try_send (semaphore w) = Some c
        \<and> setupByteDanceInput (json_Marshal up) (new_uuid up) appConfig txt optSubmit speed
            = Inr body
        \<and> dial_error up = None
        \<longrightarrow> int (length txt) \<le> MaxTextLength appConfig
            \<and> (\<exists>params. json_Marshal up params = Some body)
            \<and> frames_written (net_log (snd (streamSynthesize up appConfig txt voiceType speed w)))
                = frames_written (net_log w) @ [clientRequest_of (gzipCompress up body)])
   \<and> (let params =
          [''app'' \<mapsto> [''appid'' \<mapsto> JString (ByteDanceAppID appConfig),
                      ''token'' \<mapsto> JString (ByteDanceToken appConfig),
                      ''cluster'' \<mapsto> JString (ByteDanceCluster appConfig)],
           ''user'' \<mapsto> [''uid'' \<mapsto> JString ''uid''],
           ''audio'' \<mapsto> [''voice_type'' \<mapsto> JString (ByteDanceVoiceType appConfig),
                        ''encoding'' \<mapsto> JString ''mp3'',
                        ''speed_ratio'' \<mapsto> JNumber speed,
                        ''volume_ratio'' \<mapsto> JNumber 1.0,
                        ''pitch_ratio'' \<mapsto> JNumber 1.0],
           ''request'' \<mapsto> [''reqid'' \<mapsto> JString (new_uuid up), ''text'' \<mapsto> JString txt,
                          ''text_type'' \<mapsto> JString ''plain'',
                          ''operation'' \<mapsto> JString ''submit'']]
        in (int (length txt) \<le> MaxTextLength appConfig \<longrightarrow>
              setupByteDanceInput (json_Marshal up) (new_uuid up) appConfig txt optSubmit speed
                = (case json_Marshal up params of
                     None \<Rightarrow> Inl ErrMarshalFailed | Some resStr \<Rightarrow> Inr resStr))
           \<and> (int (length txt) \<le> MaxTextLength appConfig
               \<and> json_Marshal up params = Some body
               \<and> try_send (semaphore w) = Some c \<and> dial_error up = None \<longrightarrow>
                 frames_written
                   (net_log (snd (streamSynthesize up appConfig txt voiceType speed w)))
                   = frames_written (net_log w)
                     @ [[0x11, 0x10, 0x11, 0x00]
                        @ BigEndian_PutUint32 (word_of_nat (length (gzipCompress up body)))
                        @ gzipCompress up body]))"
proof -
  have hdr: "drop_bit 4 (defaultHeader ! 0) = 1 \<and> defaultHeader ! 0 AND 0x0f = 1
   \<and> drop_bit 4 (defaultHeader ! 1) = 1 \<and> defaultHeader ! 1 AND 0x0f = 0
   \<and> drop_bit 4 (defaultHeader ! 2) = 1 \<and> defaultHeader ! 2 AND 0x0f = 1
   \<and> defaultHeader ! 3 = 0"
    by (simp add: defaultHeader_def)
  have len: "length input < 2 ^ 32 \<longrightarrow>
        unat (BigEndian_Uint32 (take 4 (drop 4 (clientRequest_of input)))) = length input
        \<and> map unat (take 4 (drop 4 (clientRequest_of input)))
            = [length input div 2 ^ 24 mod 256, length input div 2 ^ 16 mod 256,
               length input div 2 ^ 8 mod 256, length input mod 256]"
    using clientRequest_length_field [of input] clientRequest_length_digits [of input] by blast
  have run: "try_send (semaphore w) = Some c
        \<and> setupByteDanceInput (json_Marshal up) (new_uuid up) appConfig txt optSubmit speed
            = Inr body
        \<and> dial_error up = None
        \<longrightarrow> int (length txt) \<le> MaxTextLength appConfig
            \<and> (\<exists>params. json_Marshal up params = Some body)
            \<and> frames_written (net_log (snd (streamSynthesize up appConfig txt voiceType speed w)))
                = frames_written (net_log w) @ [clientRequest_of (gzipCompress up body)]"
    using streamSynthesize_frames [of w c up appConfig "txt" speed body voiceType]
      setup_Inr [of "json_Marshal up" "new_uuid up" appConfig "txt" optSubmit speed body]
    by blast
  let ?params =
     "[''app'' \<mapsto> [''appid'' \<mapsto> JString (ByteDanceAppID appConfig),
                      ''token'' \<mapsto> JString (ByteDanceToken appConfig),
                      ''cluster'' \<mapsto> JString (ByteDanceCluster appConfig)],
           ''user'' \<mapsto> [''uid'' \<mapsto> JString ''uid''],
           ''audio'' \<mapsto> [''voice_type'' \<mapsto> JString (ByteDanceVoiceType appConfig),
                        ''encoding'' \<mapsto> JString ''mp3'',
                        ''speed_ratio'' \<mapsto> JNumber speed,
                        ''volume_ratio'' \<mapsto> JNumber 1.0,
                        ''pitch_ratio'' \<mapsto> JNumber 1.0],
           ''request'' \<mapsto> [''reqid'' \<mapsto> JString (new_uuid up), ''text'' \<mapsto> JString txt,
                          ''text_type'' \<mapsto> JString ''plain'',
                          ''operation'' \<mapsto> JString ''submit'']]"
  have enc: "int (length txt) \<le> MaxTextLength appConfig \<longrightarrow>
              setupByteDanceInput (json_Marshal up) (new_uuid up) appConfig txt optSubmit speed
                = (case json_Marshal up ?params of
                     None \<Rightarrow> Inl ErrMarshalFailed | Some resStr \<Rightarrow> Inr resStr)"
    using setup_in_limit [of "txt" appConfig "json_Marshal up" "new_uuid up" optSubmit speed]
    by (simp add: optSubmit_def)
  have wr: "frames_written
                   (net_log (snd (streamSynthesize up appConfig txt voiceType speed w)))
                   = frames_written (net_log w)
                     @ [[0x11, 0x10, 0x11, 0x00]
                        @ BigEndian_PutUint32 (word_of_nat (length (gzipCompress up body)))
                        @ gzipCompress up body]"
    if h: "int (length txt) \<le> MaxTextLength appConfig
               \<and> json_Marshal up ?params = Some body
               \<and> try_send (semaphore w) = Some c \<and> dial_error up = None"
  proof -
    have "setupByteDanceInput (json_Marshal up) (new_uuid up) appConfig txt optSubmit speed
        = Inr body"
      using enc h by simp
    then have "frames_written
        (net_log (snd (streamSynthesize up appConfig txt voiceType speed w)))
        = frames_written (net_log w) @ [clientRequest_of (gzipCompress up body)]"
      using h streamSynthesize_frames [of w c up appConfig "txt" speed body voiceType]
      by blast
    then show ?thesis by (simp only: clientRequest_layout)
  qed
  have wr': "int (length txt) \<le> MaxTextLength appConfig
               \<and> json_Marshal up ?params = Some body
               \<and> try_send (semaphore w) = Some c \<and> dial_error up = None \<longrightarrow>
                 frames_written
                   (net_log (snd (streamSynthesize up appConfig txt voiceType speed w)))
                   = frames_written (net_log w)
                     @ [[0x11, 0x10, 0x11, 0x00]
                        @ BigEndian_PutUint32 (word_of_nat (length (gzipCompress up body)))
                        @ gzipCompress up body]"
    using wr by (rule impI)
  have new: "let params = ?params
        in (int (length txt) \<le> MaxTextLength appConfig \<longrightarrow>
              setupByteDanceInput (json_Marshal up) (new_uuid up) appConfig txt optSubmit speed
                = (case json_Marshal up params of
                     None \<Rightarrow> Inl ErrMarshalFailed | Some resStr \<Rightarrow> Inr resStr))
           \<and> (int (length txt) \<le> MaxTextLength appConfig
               \<and> json_Marshal up params = Some body
               \<and> try_send (semaphore w) = Some c \<and> dial_error up = None \<longrightarrow>
                 frames_written
                   (net_log (snd (streamSynthesize up appConfig txt voiceType speed w)))
                   = frames_written (net_log w)
                     @ [[0x11, 0x10, 0x11, 0x00]
                        @ BigEndian_PutUint32 (word_of_nat (length (gzipCompress up body)))
                        @ gzipCompress up body])"
    unfolding Let_def using enc wr' by (rule conjI)
  show ?thesis
    by (intro conjI) (fact clientRequest_layout clientRequest_body hdr [THEN conjunct1] len run new
        | use hdr in blast)+
qed

lemma acquire_n_fills:
  "chan_len c + n \<le> chan_cap c \<Longrightarrow> acquire_n n c = Some (c\<lparr>chan_len := chan_len c + n\<rparr>)"
proof (induction n arbitrary: c)
  case 0
  then show ?case by simp
next
  case (Suc n)
  let ?c' = "c\<lparr>chan_len := chan_len c + 1\<rparr>"
  have t: "try_send c = Some ?c'" using Suc.prems by (simp add: try_send_def)
  have "acquire_n n ?c' = Some (?c'\<lparr>chan_len := chan_len ?c' + n\<rparr>)"
    using Suc.prems by (intro Suc.IH) simp
  then show ?case using t by simp
qed

lemma admitted_never_too_many:
  "fst (streamSynthesize_admitted up appConfig txt speed w) \<noteq> Some (Inl (ErrTooManyConnections n))"
proof -
  have r: "fst (receiveLoop gz rs audio lg) \<noteq> Some (Inl (ErrTooManyConnections n))"
    for gz rs audio lg
  proof (induction rs arbitrary: audio lg)
    case Nil
    show ?case by simp
  next
    case (Cons a rs)
    show ?case
      by (cases a) (simp_all add: Cons.IH split: sum.split)
  qed
  have s: "setupByteDanceInput marshal reqID appConfig txt opt speed \<noteq> Inl (ErrTooManyConnections n)"
    for marshal reqID opt
    by (simp add: setupByteDanceInput_def Let_def split: option.split)
  show ?thesis
  proof (cases "setupByteDanceInput (json_Marshal up) (new_uuid up) appConfig txt optSubmit speed")
    case (Inl err)
    then show ?thesis
      using s [of "json_Marshal up" "new_uuid up" optSubmit]
      by (simp add: streamSynthesize_admitted_def)
  next
    case (Inr input0)
    let ?lg = "net_log w @ [EvDial, EvWrite (clientRequest_of (gzipCompress up input0))]"
    obtain res lg' where rl: "receiveLoop (gunzip up) (incoming up) [] ?lg = (res, lg')"
      by (cases "receiveLoop (gunzip up) (incoming up) [] ?lg") blast
    have "res \<noteq> Some (Inl (ErrTooManyConnections n))"
      using r [of "gunzip up" "incoming up" "[]" ?lg] rl by simp
    then show ?thesis
      using Inr rl
      by (cases "dial_error up"; cases "write_error up"; cases res)
        (simp_all add: streamSynthesize_admitted_def Let_def)
  qed
qed

lemma streamSynthesize_admitted_result:
  assumes "try_send (semaphore w) = Some c"
  shows "fst (streamSynthesize up appConfig txt voiceType speed w) \<noteq> Some (Inl (ErrTooManyConnections n))"
proof -
  let ?w1 = "w\<lparr>semaphore := c, GlobalMetrics := IncCurrentCalls (GlobalMetrics w)\<rparr>"
  obtain r w2 where a: "streamSynthesize_admitted up appConfig txt speed ?w1 = (r, w2)"
    by (cases "streamSynthesize_admitted up appConfig txt speed ?w1") blast
  have "r \<noteq> Some (Inl (ErrTooManyConnections n))"
    using admitted_never_too_many [of up appConfig "txt" speed ?w1 n] a by simp
  then show ?thesis
    using assms a
    by (cases r; cases "recv (semaphore w2)") (simp_all add: streamSynthesize_def Let_def)
qed

lemma admitted_keeps_gate:
  "semaphore (snd (streamSynthesize_admitted up appConfig txt speed w)) = semaphore w
   \<and> GlobalMetrics (snd (streamSynthesize_admitted up appConfig txt speed w)) = GlobalMetrics w"
proof (cases "setupByteDanceInput (json_Marshal up) (new_uuid up) appConfig txt optSubmit speed")
  case (Inl err)
  then show ?thesis by (simp add: streamSynthesize_admitted_def)
next
  case (Inr input0)
  let ?lg = "net_log w @ [EvDial, EvWrite (clientRequest_of (gzipCompress up input0))]"
  obtain res lg' where rl: "receiveLoop (gunzip up) (incoming up) [] ?lg = (res, lg')"
    by (cases "receiveLoop (gunzip up) (incoming up) [] ?lg") blast
  show ?thesis
    using Inr rl
    by (cases "dial_error up"; cases "write_error up"; cases res)
      (simp_all add: streamSynthesize_admitted_def Let_def)
qed

lemma streamSynthesize_ticket:
  assumes "try_send (semaphore w) = Some c"
  shows "semaphore (snd (streamSynthesize up appConfig txt voiceType speed w))
      = (if fst (streamSynthesize up appConfig txt voiceType speed w) = None then c
         else semaphore w)"
proof -
  let ?w1 = "w\<lparr>semaphore := c, GlobalMetrics := IncCurrentCalls (GlobalMetrics w)\<rparr>"
  obtain r w2 where a: "streamSynthesize_admitted up appConfig txt speed ?w1 = (r, w2)"
    by (cases "streamSynthesize_admitted up appConfig txt speed ?w1") blast
  have s: "semaphore w2 = c"
    using admitted_keeps_gate [of up appConfig "txt" speed ?w1] a by simp
  have rc: "recv c = Some (semaphore w)" using assms by (rule try_send_recv)
  show ?thesis
    using assms a s rc by (cases r) (simp_all add: streamSynthesize_def Let_def)
qed

text \<open>
  Claim C5. \<open>init\<close> sizes the gate to \<open>MaxConcurrentCalls\<close>, empty; that many
  acquires succeed and fill it. While the gate is full, a further acquire fails and
  \<open>streamSynthesize\<close> returns \<open>ErrTooManyConnections\<close> at once, leaving the state as
  it was. After one release of a full gate one acquire succeeds, filling it again, and the
  next one fails. A call the gate admits never returns \<open>ErrTooManyConnections\<close>; it
  holds its ticket while it has not returned and has given it back once it has.
\<close>

theorem C5_admission_gate:
  "(init appConfig m0 = Some w0 \<longrightarrow>
      chan_cap (semaphore w0) = nat (MaxConcurrentCalls appConfig) \<and> chan_len (semaphore w0) = 0
      \<and> (\<exists>c. acquire_n (nat (MaxConcurrentCalls appConfig)) (semaphore w0) = Some c
             \<and> chan_len c = chan_cap c \<and> try_send c = None))
   \<and> (chan_len (semaphore w) = chan_cap (semaphore w) \<longrightarrow>
        try_send (semaphore w) = None
        \<and> streamSynthesize up appConfig txt voiceType speed w
            = (Some (Inl (ErrTooManyConnections (MaxConcurrentCalls appConfig))), w))
   \<and> (chan_len c = chan_cap c \<and> 0 < chan_cap c \<longrightarrow>
        (\<exists>c1. recv c = Some c1 \<and> try_send c1 = Some c \<and> try_send c = None))
   \<and> (try_send (semaphore w') = Some c' \<longrightarrow>
        fst (streamSynthesize up appConfig txt voiceType speed w')
          \<noteq> Some (Inl (ErrTooManyConnections n))
        \<and> semaphore (snd (streamSynthesize up appConfig txt voiceType speed w'))
          = (if fst (streamSynthesize up appConfig txt voiceType speed w') = None then c'
             else semaphore w'))"
proof (intro conjI impI)
  assume i: "init appConfig m0 = Some w0"
  then have nn: "\<not> MaxConcurrentCalls appConfig < 0"
    by (auto simp add: init_def make_chan_def split: if_splits)
  have s: "semaphore w0 = \<lparr>chan_cap = nat (MaxConcurrentCalls appConfig), chan_len = 0\<rparr>"
    using i nn by (auto simp add: init_def make_chan_def)
  show "chan_cap (semaphore w0) = nat (MaxConcurrentCalls appConfig)" by (simp add: s)
  show "chan_len (semaphore w0) = 0" by (simp add: s)
  have "acquire_n (nat (MaxConcurrentCalls appConfig)) (semaphore w0)
      = Some (semaphore w0\<lparr>chan_len := chan_len (semaphore w0) + nat (MaxConcurrentCalls appConfig)\<rparr>)"
    by (rule acquire_n_fills) (simp add: s)
  then show "\<exists>c. acquire_n (nat (MaxConcurrentCalls appConfig)) (semaphore w0) = Some c
             \<and> chan_len c = chan_cap c \<and> try_send c = None"
    by (simp add: s try_send_def)
next
  assume f: "chan_len (semaphore w) = chan_cap (semaphore w)"
  then show t: "try_send (semaphore w) = None" by (simp add: try_send_def)
  then show "streamSynthesize up appConfig txt voiceType speed w
            = (Some (Inl (ErrTooManyConnections (MaxConcurrentCalls appConfig))), w)"
    by (rule streamSynthesize_full_gate)
next
  assume "chan_len c = chan_cap c \<and> 0 < chan_cap c"
  then show "\<exists>c1. recv c = Some c1 \<and> try_send c1 = Some c \<and> try_send c = None"
    by (simp add: recv_def try_send_def)
next
  assume t': "try_send (semaphore w') = Some c'"
  then show "fst (streamSynthesize up appConfig txt voiceType speed w')
          \<noteq> Some (Inl (ErrTooManyConnections n))"
    by (rule streamSynthesize_admitted_result)
  show "semaphore (snd (streamSynthesize up appConfig txt voiceType speed w'))
          = (if fst (streamSynthesize up appConfig txt voiceType speed w') = None then c'
             else semaphore w')"
    using t' by (rule streamSynthesize_ticket)
qed

section \<open>Properties of the request handler\<close>









section \<open>The theorems at concrete inputs\<close>

text \<open>
  Each theorem above that has a hypothesis is applied here to a concrete input that
  satisfies it.
\<close>

theorem C7_record_request_and_getters_witness:
  "- (2 ^ 63) \<le> totalResponseTime (RecordRequest True 100 (initMetrics ''t0'')) + 200
   \<and> totalResponseTime (RecordRequest True 100 (initMetrics ''t0'')) + 200 < 2 ^ 63
   \<and> (\<forall>x::real. x = x)
   \<and> 0 < requestCount (RecordRequest True 100 (initMetrics ''t0''))
   \<and> requestCount (RecordRequest True 100 (initMetrics ''t0'')) < 2 ^ 63
   \<and> - (2 ^ 63) \<le> totalResponseTime (RecordRequest True 100 (initMetrics ''t0''))
   \<and> totalResponseTime (RecordRequest True 100 (initMetrics ''t0'')) < 2 ^ 63
   \<and> totalResponseTime (RecordRequest False 200 (RecordRequest True 100 (initMetrics ''t0''))) = 300
   \<and> GetSuccessRate (\<lambda>x. x) (RecordRequest True 100 (initMetrics ''t0'')) = 100
   \<and> GetAvgResponseTime (RecordRequest True 100 (initMetrics ''t0'')) = 100
   \<and> requestCount (RecordRequest False 200 (RecordRequest True 100 (initMetrics ''t0''))) = 2
   \<and> GetSuccessRate (\<lambda>x. x)
         (RecordRequest False 200 (RecordRequest True 100 (initMetrics ''t0''))) = 50
   \<and> GetAvgResponseTime
         (RecordRequest False 200 (RecordRequest True 100 (initMetrics ''t0''))) = 150"
proof -
  have f: "totalResponseTime (RecordRequest True 100 (initMetrics ''t0'')) = 100"
    "requestCount (RecordRequest True 100 (initMetrics ''t0'')) = 1"
    "successCount (RecordRequest True 100 (initMetrics ''t0'')) = 1"
    by (simp_all add: RecordRequest_fields initMetrics_counters int64_id)
  show ?thesis
    using C7_record_request_and_getters
      [of False 200 "RecordRequest True 100 (initMetrics ''t0'')" "\<lambda>x. x" "''t0''"]
    by (simp add: f Let_def signed_divide_int_def)
qed

theorem C10_counter_invariant_witness:
  "mono (\<lambda>x::real. x)
   \<and> 0 \<le> GetSuccessRate (\<lambda>x. x)
         (run_calls (initMetrics ''t0'')
            [CallRecordRequest True 100, CallRecordError ''t1'' ''internal_error'' ''boom'',
             CallRecordRequest False 200])
   \<and> GetSuccessRate (\<lambda>x. x)
         (run_calls (initMetrics ''t0'')
            [CallRecordRequest True 100, CallRecordError ''t1'' ''internal_error'' ''boom'',
             CallRecordRequest False 200]) \<le> 100
   \<and> requestCount
         (run_calls (initMetrics ''t0'')
            [CallRecordRequest True 100, CallRecordError ''t1'' ''internal_error'' ''boom'',
             CallRecordRequest False 200]) = 2"
proof -
  have m: "mono (\<lambda>x::real. x)" by (simp add: mono_def)
  have r: "requestCount
         (run_calls (initMetrics ''t0'')
            [CallRecordRequest True 100, CallRecordError ''t1'' ''internal_error'' ''boom'',
             CallRecordRequest False 200]) = 2"
    by (simp add: run_calls_def RecordRequest_fields RecordError_def Let_def initMetrics_counters)
  show ?thesis
    using m r C10_counter_invariant
      [of "''t0''" "[CallRecordRequest True 100, CallRecordError ''t1'' ''internal_error'' ''boom'',
             CallRecordRequest False 200]" True 0 "[]" "\<lambda>x. x"]
    by (simp add: Let_def)
qed

lemma error_records_of_map:
  "error_records_of (map (\<lambda>i. CallRecordError (f i) (g i) (h i)) xs)
     = map (\<lambda>i. \<lparr>Timestamp = f i, ErrorType = g i, Message = h i\<rparr>) xs"
  by (induction xs) simp_all

theorem C8_error_log_bounded_witness:
  "length (error_records_of
      (map (\<lambda>i. CallRecordError ''t'' ''internal_error'' (replicate i (CHR ''x''))) [0..<105]))
     = 105
   \<and> errors (run_calls (initMetrics ''t0'')
        (map (\<lambda>i. CallRecordError ''t'' ''internal_error'' (replicate i (CHR ''x''))) [0..<105]))
     = map (\<lambda>i. \<lparr>Timestamp = ''t'', ErrorType = ''internal_error'',
                   Message = replicate i (CHR ''x'')\<rparr>) [5..<105]
   \<and> length (errors (run_calls (initMetrics ''t0'')
        (map (\<lambda>i. CallRecordError ''t'' ''internal_error'' (replicate i (CHR ''x''))) [0..<105])))
     = 100"
proof -
  have d: "drop 5 [0..<105] = [5..<105]" by (simp add: drop_upt)
  show ?thesis
    using C8_error_log_bounded [of "''t0''"
      "map (\<lambda>i. CallRecordError ''t'' ''internal_error'' (replicate i (CHR ''x''))) [0..<105]"]
    by (simp add: Let_def error_records_of_map drop_map d)
qed

theorem C4_text_too_long_before_network_witness:
  "MaxTextLength demo_config < int (length (replicate 5001 (CHR ''a'')))
   \<and> fst (streamSynthesize (demo_upstream []) demo_config (replicate 5001 (CHR ''a'')) ''alloy'' 1
        demo_world) = Some (Inl (ErrTextTooLong 5001 5000))
   \<and> net_log (snd (streamSynthesize (demo_upstream []) demo_config (replicate 5001 (CHR ''a''))
        ''alloy'' 1 demo_world)) = []"
proof -
  have l: "MaxTextLength demo_config < int (length (replicate 5001 (CHR ''a'')))"
    by (simp add: demo_config_def)
  have t: "try_send (semaphore demo_world) \<noteq> None"
    by (simp add: demo_world_def try_send_def)
  have n: "net_log demo_world = []" "MaxTextLength demo_config = 5000"
    by (simp_all add: demo_world_def demo_config_def)
  show ?thesis
    using l t C4_text_too_long_before_network
      [of demo_config "replicate 5001 (CHR ''a'')" "demo_upstream []" 1 "''alloy''" demo_world]
    by (simp add: n)
qed

theorem C5_admission_gate_witness:
  "init demo_config (initMetrics ''2026-01-01T00:00:00Z'') = Some demo_world
   \<and> chan_len (semaphore (demo_world\<lparr>semaphore := \<lparr>chan_cap = 10, chan_len = 10\<rparr>\<rparr>))
       = chan_cap (semaphore (demo_world\<lparr>semaphore := \<lparr>chan_cap = 10, chan_len = 10\<rparr>\<rparr>))
   \<and> chan_len \<lparr>chan_cap = 10, chan_len = 10\<rparr> = chan_cap \<lparr>chan_cap = 10, chan_len = 10\<rparr>
   \<and> 0 < chan_cap \<lparr>chan_cap = 10, chan_len = 10\<rparr>
   \<and> try_send (semaphore demo_world) = Some \<lparr>chan_cap = 10, chan_len = 1\<rparr>
   \<and> acquire_n 10 (semaphore demo_world) = Some \<lparr>chan_cap = 10, chan_len = 10\<rparr>
   \<and> streamSynthesize (demo_upstream []) demo_config ''hello'' ''alloy'' 1
         (demo_world\<lparr>semaphore := \<lparr>chan_cap = 10, chan_len = 10\<rparr>\<rparr>)
       = (Some (Inl (ErrTooManyConnections 10)),
          demo_world\<lparr>semaphore := \<lparr>chan_cap = 10, chan_len = 10\<rparr>\<rparr>)
   \<and> recv \<lparr>chan_cap = 10, chan_len = 10\<rparr> = Some \<lparr>chan_cap = 10, chan_len = 9\<rparr>
   \<and> try_send \<lparr>chan_cap = 10, chan_len = 9\<rparr> = Some \<lparr>chan_cap = 10, chan_len = 10\<rparr>
   \<and> try_send \<lparr>chan_cap = 10, chan_len = 10\<rparr> = None
   \<and> fst (streamSynthesize (demo_upstream []) demo_config ''hello'' ''alloy'' 1 demo_world)
       \<noteq> Some (Inl (ErrTooManyConnections 10))"
proof -
  have i: "init demo_config (initMetrics ''2026-01-01T00:00:00Z'') = Some demo_world"
    by (simp add: init_def make_chan_def demo_config_def demo_world_def)
  have t: "try_send (semaphore demo_world) = Some \<lparr>chan_cap = 10, chan_len = 1\<rparr>"
    by (simp add: demo_world_def try_send_def)
  have a: "acquire_n 10 (semaphore demo_world) = Some \<lparr>chan_cap = 10, chan_len = 10\<rparr>"
    using acquire_n_fills [of "semaphore demo_world" 10] by (simp add: demo_world_def)
  have r: "recv \<lparr>chan_cap = 10, chan_len = 10\<rparr> = Some \<lparr>chan_cap = 10, chan_len = 9\<rparr>"
    "try_send \<lparr>chan_cap = 10, chan_len = 9\<rparr> = Some \<lparr>chan_cap = 10, chan_len = 10\<rparr>"
    by (simp_all add: recv_def try_send_def)
  have m: "MaxConcurrentCalls demo_config = 10" by (simp add: demo_config_def)
  show ?thesis
    using i t a r C5_admission_gate [of demo_config "initMetrics ''2026-01-01T00:00:00Z''"
        demo_world "demo_world\<lparr>semaphore := \<lparr>chan_cap = 10, chan_len = 10\<rparr>\<rparr>"
        "demo_upstream []" "''hello''" "''alloy''" 1 "\<lparr>chan_cap = 10, chan_len = 10\<rparr>"
        demo_world "\<lparr>chan_cap = 10, chan_len = 1\<rparr>" 10]
    by (simp add: m)
qed

theorem C3_request_frame_witness:
  "length [0x1f, 0x8b, 0x68, 0x65, 0x6c, 0x6c, 0x6f, 0x31 :: byte] < 2 ^ 32
   \<and> int (length ''hello'') \<le> MaxTextLength demo_config
   \<and> try_send (semaphore demo_world) = Some \<lparr>chan_cap = 10, chan_len = 1\<rparr>
   \<and> dial_error ((demo_upstream [])\<lparr>json_Marshal := demo_marshal\<rparr>) = None
   \<and> json_Marshal ((demo_upstream [])\<lparr>json_Marshal := demo_marshal\<rparr>)
        [''app'' \<mapsto> [''appid'' \<mapsto> JString (ByteDanceAppID demo_config),
                    ''token'' \<mapsto> JString (ByteDanceToken demo_config),
                    ''cluster'' \<mapsto> JString (ByteDanceCluster demo_config)],
         ''user'' \<mapsto> [''uid'' \<mapsto> JString ''uid''],
         ''audio'' \<mapsto> [''voice_type'' \<mapsto> JString (ByteDanceVoiceType demo_config),
                      ''encoding'' \<mapsto> JString ''mp3'',
                      ''speed_ratio'' \<mapsto> JNumber 1,
                      ''volume_ratio'' \<mapsto> JNumber 1.0,
                      ''pitch_ratio'' \<mapsto> JNumber 1.0],
         ''request'' \<mapsto> [''reqid'' \<mapsto> JString ''reqid'', ''text'' \<mapsto> JString ''hello'',
                        ''text_type'' \<mapsto> JString ''plain'',
                        ''operation'' \<mapsto> JString ''submit'']]
       = Some [0x68, 0x65, 0x6c, 0x6c, 0x6f, 0x31]
   \<and> setupByteDanceInput demo_marshal ''reqid'' demo_config ''hello'' optSubmit 1
       = Inr [0x68, 0x65, 0x6c, 0x6c, 0x6f, 0x31]
   \<and> clientRequest_of [0x1f, 0x8b, 0x68, 0x65, 0x6c, 0x6c, 0x6f, 0x31]
       = [0x11, 0x10, 0x11, 0x00, 0, 0, 0, 8, 0x1f, 0x8b, 0x68, 0x65, 0x6c, 0x6c, 0x6f, 0x31]
   \<and> unat (BigEndian_Uint32 (take 4 (drop 4
        (clientRequest_of [0x1f, 0x8b, 0x68, 0x65, 0x6c, 0x6c, 0x6f, 0x31])))) = 8
   \<and> frames_written (net_log (snd (streamSynthesize
         ((demo_upstream [])\<lparr>json_Marshal := demo_marshal\<rparr>) demo_config ''hello''
         ''alloy'' 1 demo_world)))
       = [[0x11, 0x10, 0x11, 0x00, 0, 0, 0, 8, 0x1f, 0x8b, 0x68, 0x65, 0x6c, 0x6c, 0x6f, 0x31]]"
proof -
  let ?up = "(demo_upstream [])\<lparr>json_Marshal := demo_marshal\<rparr>"
  have u: "json_Marshal ?up = demo_marshal" "new_uuid ?up = ''reqid''" "dial_error ?up = None"
    "gzipCompress ?up [0x68, 0x65, 0x6c, 0x6c, 0x6f, 0x31]
      = [0x1f, 0x8b, 0x68, 0x65, 0x6c, 0x6c, 0x6f, 0x31]"
    by (simp_all add: demo_upstream_def)
  have l: "int (length ''hello'') \<le> MaxTextLength demo_config"
    by (simp add: demo_config_def)
  have t: "try_send (semaphore demo_world) = Some \<lparr>chan_cap = 10, chan_len = 1\<rparr>"
    "net_log demo_world = []"
    by (simp_all add: demo_world_def try_send_def)
  have p: "BigEndian_PutUint32 8 = [0, 0, 0, 8]"
    by (simp add: BigEndian_PutUint32_def)
  have q: "unat (BigEndian_Uint32 [0, 0, 0, 8]) = 8"
    by (simp add: BigEndian_Uint32_def)
  note th = C3_request_frame [where input = "[0x1f, 0x8b, 0x68, 0x65, 0x6c, 0x6c, 0x6f, 0x31]"
      and w = demo_world and c = "\<lparr>chan_cap = 10, chan_len = 1\<rparr>" and up = ?up
      and appConfig = demo_config and ?txt = "''hello''" and speed = 1
      and body = "[0x68, 0x65, 0x6c, 0x6c, 0x6f, 0x31]" and voiceType = "''alloy''"]
  have s: "setupByteDanceInput demo_marshal ''reqid'' demo_config ''hello'' optSubmit 1
       = Inr [0x68, 0x65, 0x6c, 0x6c, 0x6f, 0x31]"
    using th l by (simp add: Let_def u demo_marshal_def)
  show ?thesis
    using th l s
    by (simp add: Let_def u t p q demo_marshal_def demo_upstream_def)
qed


end
